theory Spec2Isabelle
  imports Main "HOL-Library.List_Lexorder" "HOL-Library.Char_ord"
begin

section \<open>Data model of the queue client (src/sdk/sdk.go)\<close>

text \<open>
  The client in \<^verbatim>\<open>src/sdk/sdk.go\<close> keeps one record per shipment in a DynamoDB table
  and implements the queue by conditional updates on that record. The model below follows
  that file: structs are records, the table is a list of items keyed by \<^verbatim>\<open>id\<close>, every
  operation takes the store and returns its result together with the store it leaves.
\<close>

subsection \<open>Errors\<close>

text \<open>
  The typed errors returned by the client. \<open>NilPointerDereference\<close> stands for the panic of
  a method call on the nil \<^verbatim>\<open>*Shipment\<close> that \<^verbatim>\<open>Get\<close> returns for a missing record.
  \<open>IDDuplicatedError\<close> and \<open>InvalidStateTransitionError\<close> are returned by the newer client
  only.
\<close>

datatype error =
    IDNotProvidedError
  | IDNotFoundError
  | RecordNotConstructedError
  | IllegalStateError
  | EmptyQueueError
  | ConditionalCheckFailedError
  | UnmarshalingAttributeError
  | NilPointerDereference
  | IDDuplicatedError
  | InvalidStateTransitionError

subsection \<open>Time\<close>

text \<open>
  A \<^verbatim>\<open>time.Time\<close> is read by the client in two ways only: \<^verbatim>\<open>now.UnixMilli()\<close> and
  \<^verbatim>\<open>clock.FormatRFC3339(now)\<close>. The record keeps these two readings.
\<close>

record Time =
  UnixMilli :: int
  FormatRFC3339 :: string

text \<open>
  \<^verbatim>\<open>time.Duration\<close> is an int64 count of nanoseconds; \<open>int64\<close> is the wrap-around of
  Go's signed 64-bit arithmetic, \<open>tdiv\<close> its division, which truncates towards zero.
\<close>

definition int64 :: "int \<Rightarrow> int" where
  "int64 x = (x + 2 ^ 63) mod 2 ^ 64 - 2 ^ 63"

definition tdiv :: "int \<Rightarrow> int \<Rightarrow> int" where
  "tdiv a b = sgn a * sgn b * (\<bar>a\<bar> div \<bar>b\<bar>)"

definition Minute :: int where
  "Minute = 60000000000"

definition Milliseconds :: "int \<Rightarrow> int" where
  "Milliseconds d = tdiv d 1000000"

subsection \<open>Shipment records\<close>

type_synonym Status = string

definition StatusUnderConstruction :: Status where
  "StatusUnderConstruction = ''UNDER_CONSTRUCTION''"

definition StatusReadyToShip :: Status where
  "StatusReadyToShip = ''READY_TO_SHIP''"

text \<open>
  Modelled from the spec: the declarations of the remaining status constants are not under
  \<^verbatim>\<open>src/\<close>; a record that is being processed and a record in the dead-letter queue carry
  a status of their own.
\<close>

definition StatusProcessingShipment :: Status where
  "StatusProcessingShipment = ''PROCESSING_SHIPMENT''"

definition StatusInDLQ :: Status where
  "StatusInDLQ = ''IN_DLQ''"

record ShipmentItem =
  SKU :: string
  Packed :: bool

record ShipmentData =
  ID :: string
  Data1 :: string
  Data2 :: string
  Data3 :: string
  Items :: "ShipmentItem list"

text \<open>The struct \<^verbatim>\<open>SystemInfo\<close>; \<open>Version\<close> and \<open>InQueue\<close> are Go ints, \<open>PeekUTCTimestamp\<close> an int64.\<close>

record SystemInfo =
  ID :: string
  CreationTimestamp :: string
  LastUpdatedTimestamp :: string
  Status :: Status
  Version :: int
  InQueue :: int
  SelectedFromQueue :: bool
  AddToQueueTimestamp :: string
  AddToDLQTimestamp :: string
  PeekFromQueueTimestamp :: string
  RemoveFromQueueTimestamp :: string
  PeekUTCTimestamp :: int

text \<open>
  The struct \<^verbatim>\<open>Shipment\<close>, with the fields \<^verbatim>\<open>sdk.go\<close> reads and writes. The top-level
  attributes \<^verbatim>\<open>queued\<close> and \<^verbatim>\<open>DLQ\<close> are the partition keys of the two queue indexes and
  \<^verbatim>\<open>last_updated_timestamp\<close> is the sort key of both. An absent numeric attribute
  unmarshals to 0, so \<open>Queued = 0\<close> and \<open>DLQ = 0\<close> also stand for the absent attribute.
\<close>

record Shipment =
  ID :: string
  Data :: "ShipmentData option"
  SystemInfo :: SystemInfo
  Queued :: int
  LastUpdatedTimestamp :: string
  DLQ :: int

record Result =
  ID :: string
  Status :: Status
  LastUpdatedTimestamp :: string
  Version :: int

record EnqueueResult =
  Result :: Result
  Shipment :: "Shipment option"

record PeekResult =
  Result :: Result
  TimestampMillisUTC :: int
  PeekedShipmentObject :: "Shipment option"

record DequeueResult =
  Result :: Result
  DequeuedShipmentObject :: "Shipment option"

record QueueStats =
  First100IDsInQueue :: "string list"
  First100SelectedIDsInQueue :: "string list"
  TotalRecordsInQueue :: int
  TotalRecordsInProcessing :: int
  TotalRecordsNotStarted :: int

record queueSDKClient =
  visibilityTimeoutInMinutes :: int
  clock_Now :: Time


section \<open>The store\<close>

subsection \<open>Expressions\<close>

text \<open>
  What \<^verbatim>\<open>expression.NewBuilder()\<close> builds: an update expression is a list of
  \<^verbatim>\<open>ADD\<close>, \<^verbatim>\<open>SET\<close> and \<^verbatim>\<open>REMOVE\<close> actions on named attributes, a condition is an
  equality test on a named attribute or a conjunction. Attribute names are the document
  paths the client writes, such as \<^verbatim>\<open>system_info.version\<close>.
\<close>

datatype Value = N int | S string | BOOL bool

datatype UpdateAction = ADD string Value | SET string Value | REMOVE string

datatype ConditionBuilder = Equal string Value | And ConditionBuilder ConditionBuilder

record Expression =
  Update :: "UpdateAction list"
  Condition :: ConditionBuilder

text \<open>Reading an attribute of a stored item.\<close>

definition getAttr :: "string \<Rightarrow> Shipment \<Rightarrow> Value option" where
  "getAttr name it =
    (if name = ''id'' then Some (S (Shipment.ID it))
     else if name = ''queued'' then Some (N (Queued it))
     else if name = ''DLQ'' then Some (N (DLQ it))
     else if name = ''last_updated_timestamp'' then Some (S (Shipment.LastUpdatedTimestamp it))
     else if name = ''system_info.version'' then Some (N (SystemInfo.Version (SystemInfo it)))
     else if name = ''system_info.status'' then Some (S (SystemInfo.Status (SystemInfo it)))
     else if name = ''system_info.last_updated_timestamp''
       then Some (S (SystemInfo.LastUpdatedTimestamp (SystemInfo it)))
     else if name = ''system_info.queued'' then Some (N (InQueue (SystemInfo it)))
     else if name = ''system_info.queue_selected'' then Some (BOOL (SelectedFromQueue (SystemInfo it)))
     else if name = ''system_info.queue_add_timestamp''
       then Some (S (AddToQueueTimestamp (SystemInfo it)))
     else if name = ''system_info.dlq_add_timestamp'' then Some (S (AddToDLQTimestamp (SystemInfo it)))
     else if name = ''system_info.queue_peek_timestamp''
       then Some (S (PeekFromQueueTimestamp (SystemInfo it)))
     else if name = ''system_info.queue_remove_timestamp''
       then Some (S (RemoveFromQueueTimestamp (SystemInfo it)))
     else if name = ''system_info.peek_utc_timestamp'' then Some (N (PeekUTCTimestamp (SystemInfo it)))
     else None)"

text \<open>
  \<^verbatim>\<open>SET name = value\<close>. An attribute that the struct does not declare is dropped when the
  item is unmarshalled, so a \<^verbatim>\<open>SET\<close> on any other name leaves the record as it is; so does
  a value of the wrong type, which the client never writes.
\<close>

definition setAttr :: "string \<Rightarrow> Value \<Rightarrow> Shipment \<Rightarrow> Shipment" where
  "setAttr name v it =
    (case v of
       N i \<Rightarrow>
        (if name = ''queued'' then it\<lparr>Queued := i\<rparr>
         else if name = ''DLQ'' then it\<lparr>DLQ := i\<rparr>
         else if name = ''system_info.version''
           then it\<lparr>SystemInfo := (SystemInfo it)\<lparr>SystemInfo.Version := i\<rparr>\<rparr>
         else if name = ''system_info.queued''
           then it\<lparr>SystemInfo := (SystemInfo it)\<lparr>InQueue := i\<rparr>\<rparr>
         else if name = ''system_info.peek_utc_timestamp''
           then it\<lparr>SystemInfo := (SystemInfo it)\<lparr>PeekUTCTimestamp := i\<rparr>\<rparr>
         else it)
     | S x \<Rightarrow>
        (if name = ''last_updated_timestamp'' then it\<lparr>Shipment.LastUpdatedTimestamp := x\<rparr>
         else if name = ''system_info.status''
           then it\<lparr>SystemInfo := (SystemInfo it)\<lparr>SystemInfo.Status := x\<rparr>\<rparr>
         else if name = ''system_info.last_updated_timestamp''
           then it\<lparr>SystemInfo := (SystemInfo it)\<lparr>SystemInfo.LastUpdatedTimestamp := x\<rparr>\<rparr>
         else if name = ''system_info.queue_add_timestamp''
           then it\<lparr>SystemInfo := (SystemInfo it)\<lparr>AddToQueueTimestamp := x\<rparr>\<rparr>
         else if name = ''system_info.dlq_add_timestamp''
           then it\<lparr>SystemInfo := (SystemInfo it)\<lparr>AddToDLQTimestamp := x\<rparr>\<rparr>
         else if name = ''system_info.queue_peek_timestamp''
           then it\<lparr>SystemInfo := (SystemInfo it)\<lparr>PeekFromQueueTimestamp := x\<rparr>\<rparr>
         else if name = ''system_info.queue_remove_timestamp''
           then it\<lparr>SystemInfo := (SystemInfo it)\<lparr>RemoveFromQueueTimestamp := x\<rparr>\<rparr>
         else it)
     | BOOL b \<Rightarrow>
        (if name = ''system_info.queue_selected''
           then it\<lparr>SystemInfo := (SystemInfo it)\<lparr>SelectedFromQueue := b\<rparr>\<rparr>
         else it))"

text \<open>
  \<^verbatim>\<open>ADD name number\<close> adds to a numeric attribute; \<^verbatim>\<open>REMOVE name\<close> deletes the attribute,
  which then unmarshals to the zero value of its type.
\<close>

definition applyAction :: "UpdateAction \<Rightarrow> Shipment \<Rightarrow> Shipment" where
  "applyAction a it =
    (case a of
       ADD name v \<Rightarrow>
        (case (getAttr name it, v) of
           (Some (N old), N n) \<Rightarrow> setAttr name (N (old + n)) it
         | _ \<Rightarrow> it)
     | SET name v \<Rightarrow> setAttr name v it
     | REMOVE name \<Rightarrow>
        (case getAttr name it of
           Some (N _) \<Rightarrow> setAttr name (N 0) it
         | Some (S _) \<Rightarrow> setAttr name (S []) it
         | Some (BOOL _) \<Rightarrow> setAttr name (BOOL False) it
         | None \<Rightarrow> it))"

fun applyUpdate :: "UpdateAction list \<Rightarrow> Shipment \<Rightarrow> Shipment" where
  "applyUpdate [] it = it"
| "applyUpdate (a # as) it = applyUpdate as (applyAction a it)"

fun evalCondition :: "ConditionBuilder \<Rightarrow> Shipment \<Rightarrow> bool" where
  "evalCondition (Equal name v) it = (getAttr name it = Some v)"
| "evalCondition (And c1 c2) it = (evalCondition c1 it \<and> evalCondition c2 it)"

subsection \<open>The DynamoDB table\<close>

text \<open>
  The table holds one item per primary key \<^verbatim>\<open>id\<close>. \<open>calls\<close> is the log of the requests
  the client has issued, in order, so that an operation that issues no read or no write
  is one that leaves the log as it is. An \<^verbatim>\<open>UpdateItem\<close> request is logged with its key and
  its expression.
\<close>

datatype Call =
    GetItemCall string
  | PutItemCall string
  | DeleteItemCall string
  | UpdateItemCall string Expression
  | QueryCall string

record DynamoDB =
  items :: "Shipment list"
  calls :: "Call list"

definition logCall :: "Call \<Rightarrow> DynamoDB \<Rightarrow> DynamoDB" where
  "logCall c db = db\<lparr>calls := calls db @ [c]\<rparr>"

definition lookupItem :: "Shipment list \<Rightarrow> string \<Rightarrow> Shipment option" where
  "lookupItem its key = find (\<lambda>it. Shipment.ID it = key) its"

definition GetItem :: "DynamoDB \<Rightarrow> string \<Rightarrow> Shipment option \<times> DynamoDB" where
  "GetItem db key = (lookupItem (items db) key, logCall (GetItemCall key) db)"

definition PutItem :: "DynamoDB \<Rightarrow> Shipment \<Rightarrow> DynamoDB" where
  "PutItem db item =
    logCall (PutItemCall (Shipment.ID item))
      (db\<lparr>items := filter (\<lambda>it. Shipment.ID it \<noteq> Shipment.ID item) (items db) @ [item]\<rparr>)"

definition DeleteItem :: "DynamoDB \<Rightarrow> string \<Rightarrow> DynamoDB" where
  "DeleteItem db key =
    logCall (DeleteItemCall key) (db\<lparr>items := filter (\<lambda>it. Shipment.ID it \<noteq> key) (items db)\<rparr>)"

text \<open>
  \<^verbatim>\<open>UpdateItem\<close> with a condition expression and \<^verbatim>\<open>ReturnValues: ALL_NEW\<close>. The condition
  is evaluated on the stored item; a comparison on an item that does not exist is false.
  When the condition fails nothing is written and the request fails with
  \<^verbatim>\<open>ConditionalCheckFailedException\<close>.
\<close>

definition UpdateItem :: "DynamoDB \<Rightarrow> string \<Rightarrow> Expression \<Rightarrow> (error + Shipment) \<times> DynamoDB" where
  "UpdateItem db key expr =
    (case lookupItem (items db) key of
       None \<Rightarrow> (Inl ConditionalCheckFailedError, logCall (UpdateItemCall key expr) db)
     | Some it \<Rightarrow>
        if evalCondition (Condition expr) it
        then (let new = applyUpdate (Update expr) it
              in (Inr new,
                  logCall (UpdateItemCall key expr)
                    (db\<lparr>items := map (\<lambda>x. if Shipment.ID x = key then new else x) (items db)\<rparr>)))
        else (Inl ConditionalCheckFailedError, logCall (UpdateItemCall key expr) db))"

definition QueueingIndexName :: string where
  "QueueingIndexName = ''queueud-last_updated_timestamp-index''"

definition DlqQueueingIndexName :: string where
  "DlqQueueingIndexName = ''dlq-last_updated_timestamp-index''"

text \<open>
  The two global secondary indexes of the table (\<^verbatim>\<open>setupDynamoDB\<close> in the tests): partition
  key \<^verbatim>\<open>queued\<close>, respectively \<^verbatim>\<open>DLQ\<close>, sort key \<^verbatim>\<open>last_updated_timestamp\<close>. A query with
  \<^verbatim>\<open>ScanIndexForward\<close> lists the items of one partition in ascending order of the sort key,
  a string compared byte by byte.
\<close>

definition indexPartition :: "string \<Rightarrow> Shipment \<Rightarrow> int" where
  "indexPartition indexName it = (if indexName = DlqQueueingIndexName then DLQ it else Queued it)"

definition indexItems :: "string \<Rightarrow> int \<Rightarrow> Shipment list \<Rightarrow> Shipment list" where
  "indexItems indexName v its =
    sort_key Shipment.LastUpdatedTimestamp (filter (\<lambda>it. indexPartition indexName it = v) its)"

text \<open>
  The projection expression: the top-level attributes that are not named are absent from
  the returned item and unmarshal to their zero values. Every query of the client names
  \<^verbatim>\<open>id\<close> and \<^verbatim>\<open>system_info\<close>.
\<close>

definition project :: "string list \<Rightarrow> Shipment \<Rightarrow> Shipment" where
  "project names it =
    it\<lparr>Data := (if ''data'' \<in> set names then Data it else None),
       Queued := (if ''queued'' \<in> set names then Queued it else 0),
       Shipment.LastUpdatedTimestamp :=
         (if ''last_updated_timestamp'' \<in> set names then Shipment.LastUpdatedTimestamp it else []),
       DLQ := (if ''DLQ'' \<in> set names then DLQ it else 0)\<rparr>"

record QueryOutput =
  Items :: "Shipment list"
  LastEvaluatedKey :: "nat option"

text \<open>
  One page of a query. The exclusive start key is the position in the index after which
  the page starts; a page that was cut by \<^verbatim>\<open>Limit\<close> returns the key to continue from.
\<close>

definition Query ::
  "DynamoDB \<Rightarrow> string \<Rightarrow> string list \<Rightarrow> int \<Rightarrow> nat \<Rightarrow> nat option \<Rightarrow> QueryOutput \<times> DynamoDB" where
  "Query db indexName projection v limit exclusiveStartKey =
    (let start = (case exclusiveStartKey of None \<Rightarrow> 0 | Some k \<Rightarrow> k);
         page = take limit (drop start (indexItems indexName v (items db)))
     in (\<lparr>Items = map (project projection) page,
          LastEvaluatedKey = (if length page = limit then Some (start + limit) else None)\<rparr>,
         logCall (QueryCall indexName) db))"


section \<open>Methods of \<^verbatim>\<open>Shipment\<close>\<close>

text \<open>
  Modelled from the spec: the methods of \<^verbatim>\<open>Shipment\<close> that \<^verbatim>\<open>sdk.go\<close> calls
  (\<^verbatim>\<open>IsQueueSelected\<close>, \<^verbatim>\<open>IsRemoved\<close>, \<^verbatim>\<open>IsEnqueued\<close>, \<^verbatim>\<open>IsDLQ\<close>, \<^verbatim>\<open>ChangeStatus\<close>,
  \<^verbatim>\<open>MarkAsEnqueued\<close>, \<^verbatim>\<open>MarkAsPeeked\<close>, \<^verbatim>\<open>MarkAsDLQ\<close>, \<^verbatim>\<open>Touch\<close>) are not under
  \<^verbatim>\<open>src/\<close>; only their calls and the tests that use them are. They follow the state
  transitions of the spec, written on the fields of the record above: a record is in the
  standard queue when \<^verbatim>\<open>queued\<close> is 1, in the dead-letter queue when \<^verbatim>\<open>DLQ\<close> is 1, it is
  being processed when \<^verbatim>\<open>queue_selected\<close> is set, and it was received at
  \<^verbatim>\<open>peek_utc_timestamp\<close>.
\<close>

text \<open>
  Modelled from the spec: \<^verbatim>\<open>IsQueueSelected\<close> is the negation of the visibility predicate,
  "a record is visible iff Status=READY OR now \<ge> ReceivedAt + VisibilityTimeout".
\<close>

definition IsQueueSelected :: "Shipment \<Rightarrow> Time \<Rightarrow> int \<Rightarrow> bool" where
  "IsQueueSelected s now visibilityTimeout =
    (SelectedFromQueue (SystemInfo s) \<and>
     \<not> (UnixMilli now \<ge> PeekUTCTimestamp (SystemInfo s) + Milliseconds visibilityTimeout))"

text \<open>
  Modelled from the spec: \<^verbatim>\<open>IsRemoved\<close>, \<^verbatim>\<open>IsEnqueued\<close> and \<^verbatim>\<open>IsDLQ\<close> tell in which of
  the queues the record is. The test "can remove" requires that a fresh record, which is in
  no queue, does not count as removed.
\<close>

definition IsRemoved :: "Shipment \<Rightarrow> bool" where
  "IsRemoved s =
    (Queued s = 0 \<and> DLQ s = 0 \<and> InQueue (SystemInfo s) = 0 \<and>
     \<not> SelectedFromQueue (SystemInfo s) \<and> RemoveFromQueueTimestamp (SystemInfo s) \<noteq> [])"

definition IsEnqueued :: "Shipment \<Rightarrow> bool" where
  "IsEnqueued s =
    (Queued s = 1 \<and> DLQ s = 0 \<and> InQueue (SystemInfo s) = 1 \<and>
     \<not> SelectedFromQueue (SystemInfo s))"

definition IsDLQ :: "Shipment \<Rightarrow> bool" where
  "IsDLQ s =
    (Queued s = 0 \<and> DLQ s = 1 \<and> InQueue (SystemInfo s) = 0 \<and>
     \<not> SelectedFromQueue (SystemInfo s))"

text \<open>
  Modelled from the spec: every transition stamps the time of the update; the tests compare
  the \<^verbatim>\<open>system_info\<close> timestamp of the stored record with the top-level timestamp of the
  record the method was applied to, so both are stamped.
\<close>

definition stamp :: "Time \<Rightarrow> Shipment \<Rightarrow> Shipment" where
  "stamp now s =
    s\<lparr>Shipment.LastUpdatedTimestamp := FormatRFC3339 now,
      SystemInfo := (SystemInfo s)\<lparr>SystemInfo.LastUpdatedTimestamp := FormatRFC3339 now\<rparr>\<rparr>"

definition ChangeStatus :: "Shipment \<Rightarrow> Status \<Rightarrow> Time \<Rightarrow> Shipment" where
  "ChangeStatus s newStatus now =
    (let s = stamp now s in s\<lparr>SystemInfo := (SystemInfo s)\<lparr>SystemInfo.Status := newStatus\<rparr>\<rparr>)"

definition Shipment_Touch :: "Shipment \<Rightarrow> Time \<Rightarrow> Shipment" where
  "Shipment_Touch s now = stamp now s"

text \<open>
  Modelled from the spec: the record enters the standard queue, ready to be received, and
  its queue-add timestamp is set.
\<close>

definition MarkAsEnqueued :: "Shipment \<Rightarrow> Time \<Rightarrow> Shipment" where
  "MarkAsEnqueued s now =
    (let s = stamp now s
     in s\<lparr>Queued := 1, DLQ := 0,
          SystemInfo := (SystemInfo s)
            \<lparr>InQueue := 1, SelectedFromQueue := False,
             AddToQueueTimestamp := FormatRFC3339 now,
             SystemInfo.Status := StatusReadyToShip\<rparr>\<rparr>)"

text \<open>
  Modelled from the spec: \<^verbatim>\<open>markAsProcessing\<close> sets the status to processing and the time
  of reception to now. The statistics test "has one item in peeked" requires that the
  record is in the queue index afterwards.
\<close>

definition MarkAsPeeked :: "Shipment \<Rightarrow> Time \<Rightarrow> Shipment" where
  "MarkAsPeeked s now =
    (let s = stamp now s
     in s\<lparr>Queued := 1,
          SystemInfo := (SystemInfo s)
            \<lparr>InQueue := 1, SelectedFromQueue := True,
             PeekFromQueueTimestamp := FormatRFC3339 now,
             PeekUTCTimestamp := UnixMilli now,
             SystemInfo.Status := StatusProcessingShipment\<rparr>\<rparr>)"

text \<open>
  Modelled from the spec: \<^verbatim>\<open>markAsMovedToDLQ\<close> moves the record to the dead-letter queue,
  ready and not selected.
\<close>

definition MarkAsDLQ :: "Shipment \<Rightarrow> Time \<Rightarrow> Shipment" where
  "MarkAsDLQ s now =
    (let s = stamp now s
     in s\<lparr>Queued := 0, DLQ := 1,
          SystemInfo := (SystemInfo s)
            \<lparr>InQueue := 0, SelectedFromQueue := False,
             AddToDLQTimestamp := FormatRFC3339 now,
             SystemInfo.Status := StatusInDLQ\<rparr>\<rparr>)"

section \<open>The client operations\<close>

text \<open>
  Each operation returns its result, or the typed error, together with the store it
  leaves. Failures of the transport, of the expression builder and of the codec are not
  modelled: the store answers every request.
\<close>

definition resultOf :: "string \<Rightarrow> Shipment \<Rightarrow> Result" where
  "resultOf ident item =
    \<lparr>Result.ID = ident,
     Result.Status = SystemInfo.Status (SystemInfo item),
     Result.LastUpdatedTimestamp = SystemInfo.LastUpdatedTimestamp (SystemInfo item),
     Result.Version = SystemInfo.Version (SystemInfo item)\<rparr>"

definition Get :: "queueSDKClient \<Rightarrow> DynamoDB \<Rightarrow> string \<Rightarrow> (error + Shipment option) \<times> DynamoDB" where
  "Get c db ident =
    (if ident = [] then (Inl IDNotProvidedError, db)
     else (case GetItem db ident of (item, db') \<Rightarrow> (Inr item, db')))"

definition put :: "queueSDKClient \<Rightarrow> DynamoDB \<Rightarrow> Shipment \<Rightarrow> (error + unit) \<times> DynamoDB" where
  "put c db shipment = (Inr (), PutItem db shipment)"

definition Put :: "queueSDKClient \<Rightarrow> DynamoDB \<Rightarrow> Shipment \<Rightarrow> (error + unit) \<times> DynamoDB" where
  "Put c db shipment =
    (case Get c db (Shipment.ID shipment) of
       (Inl err, db1) \<Rightarrow> (Inl err, db1)
     | (Inr retrieved, db1) \<Rightarrow>
        (case retrieved of
           Some _ \<Rightarrow> put c (DeleteItem db1 (Shipment.ID shipment)) shipment
         | None \<Rightarrow> put c db1 shipment))"

definition Delete :: "queueSDKClient \<Rightarrow> DynamoDB \<Rightarrow> string \<Rightarrow> (error + unit) \<times> DynamoDB" where
  "Delete c db ident =
    (if ident = [] then (Inl IDNotProvidedError, db)
     else (Inr (), DeleteItem db ident))"

text \<open>
  \<^verbatim>\<open>attributevalue.UnmarshalMap\<close> on the attributes that \<^verbatim>\<open>UpdateItem\<close> returns. The numbers
  of an item are the Go ints the client wrote, except for the version, which the store
  computes with \<^verbatim>\<open>ADD\<close> in its own number type: a version that does not fit a Go int
  (64 bits) cannot be unmarshalled. The return of a write is the first place where such a
  version can be met, so the failure is modelled there.
\<close>

definition fitsInt :: "int \<Rightarrow> bool" where
  "fitsInt x = (- (2 ^ 63) \<le> x \<and> x < 2 ^ 63)"

definition UnmarshalMap :: "Shipment \<Rightarrow> error + Shipment" where
  "UnmarshalMap attributes =
    (if fitsInt (SystemInfo.Version (SystemInfo attributes)) then Inr attributes
     else Inl UnmarshalingAttributeError)"

text \<open>
  \<^verbatim>\<open>updateDynamoDBItem\<close>: the error of the store is returned as it is; after a successful
  update the returned attributes are unmarshalled, and a failure there is returned although
  the store has written.
\<close>

definition updateDynamoDBItem ::
  "queueSDKClient \<Rightarrow> DynamoDB \<Rightarrow> string \<Rightarrow> Expression \<Rightarrow> (error + Shipment) \<times> DynamoDB" where
  "updateDynamoDBItem c db ident expr =
    (case UpdateItem db ident expr of
       (Inl err, db') \<Rightarrow> (Inl err, db')
     | (Inr attributes, db') \<Rightarrow> (UnmarshalMap attributes, db'))"

subsection \<open>UpdateStatus\<close>

definition UpdateStatus_expr :: "Shipment \<Rightarrow> Expression" where
  "UpdateStatus_expr shipment =
    \<lparr>Update =
       [ADD ''system_info.version'' (N 1),
        SET ''system_info.status'' (S (SystemInfo.Status (SystemInfo shipment))),
        SET ''system_info.last_updated_timestamp''
          (S (SystemInfo.LastUpdatedTimestamp (SystemInfo shipment))),
        SET ''last_updated_timestamp'' (S (Shipment.LastUpdatedTimestamp shipment))],
     Condition = Equal ''system_info.version'' (N (SystemInfo.Version (SystemInfo shipment)))\<rparr>"

definition UpdateStatus ::
  "queueSDKClient \<Rightarrow> DynamoDB \<Rightarrow> string \<Rightarrow> Status \<Rightarrow> (error + Result) \<times> DynamoDB" where
  "UpdateStatus c db ident newStatus =
    (if ident = [] then (Inl IDNotProvidedError, db)
     else
      (case Get c db ident of
         (Inl err, db1) \<Rightarrow> (Inl err, db1)
       | (Inr None, db1) \<Rightarrow> (Inl IDNotFoundError, db1)
       | (Inr (Some shipment), db1) \<Rightarrow>
          (let prevStatus = SystemInfo.Status (SystemInfo shipment)
           in if prevStatus = newStatus
              then (Inr \<lparr>Result.ID = Shipment.ID shipment,
                         Result.Status = newStatus,
                         Result.LastUpdatedTimestamp =
                           SystemInfo.LastUpdatedTimestamp (SystemInfo shipment),
                         Result.Version = SystemInfo.Version (SystemInfo shipment)\<rparr>, db1)
              else
               (case updateDynamoDBItem c db1 ident
                       (UpdateStatus_expr (ChangeStatus shipment newStatus (clock_Now c))) of
                  (Inl err, db2) \<Rightarrow> (Inl err, db2)
                | (Inr item, db2) \<Rightarrow> (Inr (resultOf (SystemInfo.ID (SystemInfo item)) item), db2)))))"


subsection \<open>Enqueue\<close>

definition Enqueue_expr :: "Shipment \<Rightarrow> Expression" where
  "Enqueue_expr retrieved =
    \<lparr>Update =
       [ADD ''system_info.version'' (N 1),
        SET ''queued'' (N (Queued retrieved)),
        SET ''system_info.queued'' (N (InQueue (SystemInfo retrieved))),
        SET ''system_info.queue_selected'' (BOOL (SelectedFromQueue (SystemInfo retrieved))),
        SET ''last_updated_timestamp'' (S (Shipment.LastUpdatedTimestamp retrieved)),
        SET ''system_info.last_updated_timestamp''
          (S (SystemInfo.LastUpdatedTimestamp (SystemInfo retrieved))),
        SET ''system_info.queue_add_timestamp'' (S (AddToQueueTimestamp (SystemInfo retrieved))),
        SET ''system_info.status'' (S (SystemInfo.Status (SystemInfo retrieved)))],
     Condition = Equal ''system_info.version'' (N (SystemInfo.Version (SystemInfo retrieved)))\<rparr>"

definition Enqueue ::
  "queueSDKClient \<Rightarrow> DynamoDB \<Rightarrow> string \<Rightarrow> (error + EnqueueResult) \<times> DynamoDB" where
  "Enqueue c db ident =
    (if ident = [] then (Inl IDNotProvidedError, db)
     else
      (case Get c db ident of
         (Inl err, db1) \<Rightarrow> (Inl err, db1)
       | (Inr None, db1) \<Rightarrow> (Inl IDNotFoundError, db1)
       | (Inr (Some retrieved), db1) \<Rightarrow>
          (let preStatus = SystemInfo.Status (SystemInfo retrieved)
           in if preStatus = StatusUnderConstruction then (Inl RecordNotConstructedError, db1)
              else if preStatus \<noteq> StatusReadyToShip then (Inl IllegalStateError, db1)
              else
               (case updateDynamoDBItem c db1 ident
                       (Enqueue_expr (MarkAsEnqueued retrieved (clock_Now c))) of
                  (Inl err, db2) \<Rightarrow> (Inl err, db2)
                | (Inr item, db2) \<Rightarrow>
                   (case Get c db2 ident of
                      (Inl err, db3) \<Rightarrow> (Inl err, db3)
                    | (Inr shipment, db3) \<Rightarrow>
                       (Inr \<lparr>EnqueueResult.Result = resultOf (Shipment.ID item) item,
                             Shipment = shipment\<rparr>, db3))))))"

subsection \<open>Peek\<close>

text \<open>
  The paginated scan of the queue index: pages of at most 250 items; in each page the first
  item that is not selected is taken, and the scan stops when an item was found or the
  last page was read. It returns \<^verbatim>\<open>selectedID\<close> and \<^verbatim>\<open>selectedVersion\<close>, which keep their
  zero values when nothing was found.
\<close>

function peekPages :: "queueSDKClient \<Rightarrow> DynamoDB \<Rightarrow> nat option \<Rightarrow> (string \<times> int) \<times> DynamoDB" where
  "peekPages c db exclusiveStartKey =
    (case Query db QueueingIndexName [''id'', ''queued'', ''system_info''] 1 250 exclusiveStartKey of
       (queryResult, db') \<Rightarrow>
        (case find (\<lambda>item. \<not> IsQueueSelected item (clock_Now c)
                               (int64 (visibilityTimeoutInMinutes c * Minute)))
                (Items queryResult) of
           Some item \<Rightarrow> ((Shipment.ID item, SystemInfo.Version (SystemInfo item)), db')
         | None \<Rightarrow>
            (case LastEvaluatedKey queryResult of
               None \<Rightarrow> (([], 0), db')
             | Some k \<Rightarrow> peekPages c db' (Some k))))"
  by pat_completeness auto
termination
  apply (relation "measure (\<lambda>(c, db, k). length (indexItems QueueingIndexName 1 (items db))
                           - (case k of None \<Rightarrow> 0 | Some n \<Rightarrow> n))")
   apply simp
  apply (auto simp: Query_def Let_def logCall_def split: if_splits option.splits)
  done

declare peekPages.simps [simp del]

definition Peek_expr :: "Shipment \<Rightarrow> int \<Rightarrow> Expression" where
  "Peek_expr shipment selectedVersion =
    \<lparr>Update =
       [ADD ''system_info.version'' (N 1),
        SET ''system_info.queue_selected'' (BOOL (SelectedFromQueue (SystemInfo shipment))),
        SET ''last_updated_timestamp'' (S (Shipment.LastUpdatedTimestamp shipment)),
        SET ''system_info.last_updated_timestamp''
          (S (SystemInfo.LastUpdatedTimestamp (SystemInfo shipment))),
        SET ''system_info.queue_peek_timestamp'' (S (PeekFromQueueTimestamp (SystemInfo shipment))),
        SET ''system_info.peek_utc_timestamp'' (N (PeekUTCTimestamp (SystemInfo shipment))),
        SET ''system_info.status'' (S (SystemInfo.Status (SystemInfo shipment)))],
     Condition = Equal ''system_info.version'' (N selectedVersion)\<rparr>"

definition Peek :: "queueSDKClient \<Rightarrow> DynamoDB \<Rightarrow> (error + PeekResult) \<times> DynamoDB" where
  "Peek c db =
    (case peekPages c db None of
       ((selectedID, selectedVersion), db1) \<Rightarrow>
        if selectedID = [] then (Inl EmptyQueueError, db1)
        else
         (case Get c db1 selectedID of
            (Inl err, db2) \<Rightarrow> (Inl err, db2)
          | (Inr None, db2) \<Rightarrow> (Inl NilPointerDereference, db2)
          | (Inr (Some shipment), db2) \<Rightarrow>
             (case updateDynamoDBItem c db2 (Shipment.ID shipment)
                     (Peek_expr (MarkAsPeeked shipment (clock_Now c)) selectedVersion) of
                (Inl err, db3) \<Rightarrow> (Inl err, db3)
              | (Inr item, db3) \<Rightarrow>
                 (case Get c db3 selectedID of
                    (Inl err, db4) \<Rightarrow> (Inl err, db4)
                  | (Inr peekedShipment, db4) \<Rightarrow>
                     (Inr \<lparr>PeekResult.Result = resultOf (Shipment.ID item) item,
                           TimestampMillisUTC = PeekUTCTimestamp (SystemInfo item),
                           PeekedShipmentObject = peekedShipment\<rparr>, db4)))))"

subsection \<open>Remove\<close>

definition Remove_expr :: "Shipment \<Rightarrow> string \<Rightarrow> Expression" where
  "Remove_expr shipment ts =
    \<lparr>Update =
       [ADD ''system_info.version'' (N 1),
        REMOVE ''queued'',
        REMOVE ''DLQ'',
        SET ''system_info.queued'' (N 0),
        SET ''system_info.queue_selected'' (BOOL False),
        SET ''system_info.last_updated_timestamp'' (S ts),
        SET ''last_updated_timestamp'' (S ts),
        SET ''system_info.queue_remove_timestamp'' (S ts)],
     Condition = Equal ''system_info.version'' (N (SystemInfo.Version (SystemInfo shipment)))\<rparr>"

definition Remove :: "queueSDKClient \<Rightarrow> DynamoDB \<Rightarrow> string \<Rightarrow> (error + Result) \<times> DynamoDB" where
  "Remove c db ident =
    (case Get c db ident of
       (Inl err, db1) \<Rightarrow> (Inl err, db1)
     | (Inr None, db1) \<Rightarrow> (Inl IDNotFoundError, db1)
     | (Inr (Some shipment), db1) \<Rightarrow>
        if IsRemoved shipment then (Inr (resultOf ident shipment), db1)
        else
         (case updateDynamoDBItem c db1 ident
                 (Remove_expr shipment (FormatRFC3339 (clock_Now c))) of
            (Inl err, db2) \<Rightarrow> (Inl err, db2)
          | (Inr item, db2) \<Rightarrow> (Inr (resultOf ident item), db2)))"

subsection \<open>Dequeue\<close>

definition Dequeue :: "queueSDKClient \<Rightarrow> DynamoDB \<Rightarrow> (error + DequeueResult) \<times> DynamoDB" where
  "Dequeue c db =
    (case Peek c db of
       (Inl err, db1) \<Rightarrow> (Inl err, db1)
     | (Inr peekResult, db1) \<Rightarrow>
        (case Remove c db1 (Result.ID (PeekResult.Result peekResult)) of
           (Inl err, db2) \<Rightarrow> (Inl err, db2)
         | (Inr removeResult, db2) \<Rightarrow>
            (case Get c db2 (Result.ID (PeekResult.Result peekResult)) of
               (Inl err, db3) \<Rightarrow> (Inl err, db3)
             | (Inr shipment, db3) \<Rightarrow>
                (Inr \<lparr>DequeueResult.Result = removeResult,
                      DequeuedShipmentObject = shipment\<rparr>, db3))))"

subsection \<open>Restore\<close>

definition Restore_expr :: "Shipment \<Rightarrow> Expression" where
  "Restore_expr shipment =
    \<lparr>Update =
       [ADD ''system_info.version'' (N 1),
        REMOVE ''DLQ'',
        SET ''queued'' (N (Queued shipment)),
        SET ''last_updated_timestamp'' (S (Shipment.LastUpdatedTimestamp shipment)),
        SET ''system_info.queued'' (N (InQueue (SystemInfo shipment))),
        SET ''system_info.queue_selected'' (BOOL (SelectedFromQueue (SystemInfo shipment))),
        SET ''system_info.last_updated_timestamp''
          (S (SystemInfo.LastUpdatedTimestamp (SystemInfo shipment))),
        SET ''system_info.queue_add_timestamp'' (S (AddToQueueTimestamp (SystemInfo shipment))),
        SET ''system_info.status'' (S (SystemInfo.Status (SystemInfo shipment)))],
     Condition = Equal ''system_info.version'' (N (SystemInfo.Version (SystemInfo shipment)))\<rparr>"

definition Restore :: "queueSDKClient \<Rightarrow> DynamoDB \<Rightarrow> string \<Rightarrow> (error + Result) \<times> DynamoDB" where
  "Restore c db ident =
    (case Get c db ident of
       (Inl err, db1) \<Rightarrow> (Inl err, db1)
     | (Inr None, db1) \<Rightarrow> (Inl IDNotFoundError, db1)
     | (Inr (Some shipment), db1) \<Rightarrow>
        if IsEnqueued shipment then (Inr (resultOf ident shipment), db1)
        else
         (case updateDynamoDBItem c db1 ident
                 (Restore_expr (MarkAsEnqueued shipment (clock_Now c))) of
            (Inl err, db2) \<Rightarrow> (Inl err, db2)
          | (Inr item, db2) \<Rightarrow> (Inr (resultOf ident item), db2)))"

subsection \<open>SendToDLQ\<close>

definition SendToDLQ_expr :: "Shipment \<Rightarrow> Expression" where
  "SendToDLQ_expr shipment =
    \<lparr>Update =
       [ADD ''system_info.version'' (N 1),
        REMOVE ''queued'',
        SET ''DLQ'' (N (DLQ shipment)),
        SET ''system_info.queued'' (N (InQueue (SystemInfo shipment))),
        SET ''system_info.queue_selected'' (BOOL (SelectedFromQueue (SystemInfo shipment))),
        SET ''last_updated_timestamp'' (S (Shipment.LastUpdatedTimestamp shipment)),
        SET ''system_info.last_updated_timestamp''
          (S (SystemInfo.LastUpdatedTimestamp (SystemInfo shipment))),
        SET ''system_info.dlq_add_timestamp'' (S (AddToDLQTimestamp (SystemInfo shipment))),
        SET ''system_info.status'' (S (SystemInfo.Status (SystemInfo shipment)))],
     Condition =
       And (Equal ''system_info.version'' (N (SystemInfo.Version (SystemInfo shipment))))
           (Equal ''system_info.queued'' (N 1))\<rparr>"

definition SendToDLQ :: "queueSDKClient \<Rightarrow> DynamoDB \<Rightarrow> string \<Rightarrow> (error + Result) \<times> DynamoDB" where
  "SendToDLQ c db ident =
    (case Get c db ident of
       (Inl err, db1) \<Rightarrow> (Inl err, db1)
     | (Inr None, db1) \<Rightarrow> (Inl IDNotFoundError, db1)
     | (Inr (Some shipment), db1) \<Rightarrow>
        if IsDLQ shipment then (Inr (resultOf ident shipment), db1)
        else
         (case updateDynamoDBItem c db1 ident
                 (SendToDLQ_expr (MarkAsDLQ shipment (clock_Now c))) of
            (Inl err, db2) \<Rightarrow> (Inl err, db2)
          | (Inr item, db2) \<Rightarrow> (Inr (resultOf ident item), db2)))"

subsection \<open>Touch\<close>

definition Touch_expr :: "Shipment \<Rightarrow> Expression" where
  "Touch_expr shipment =
    \<lparr>Update =
       [ADD ''system_info.version'' (N 1),
        SET ''last_updated_timestamp'' (S (Shipment.LastUpdatedTimestamp shipment)),
        SET ''system_info.last_updated_timestamp''
          (S (SystemInfo.LastUpdatedTimestamp (SystemInfo shipment)))],
     Condition = Equal ''system_info.version'' (N (SystemInfo.Version (SystemInfo shipment)))\<rparr>"

definition Touch :: "queueSDKClient \<Rightarrow> DynamoDB \<Rightarrow> string \<Rightarrow> (error + Result) \<times> DynamoDB" where
  "Touch c db ident =
    (case Get c db ident of
       (Inl err, db1) \<Rightarrow> (Inl err, db1)
     | (Inr None, db1) \<Rightarrow> (Inl IDNotFoundError, db1)
     | (Inr (Some shipment), db1) \<Rightarrow>
        (case updateDynamoDBItem c db1 ident
                (Touch_expr (Shipment_Touch shipment (clock_Now c))) of
           (Inl err, db2) \<Rightarrow> (Inl err, db2)
         | (Inr item, db2) \<Rightarrow> (Inr (resultOf ident item), db2)))"


subsection \<open>GetQueueStats\<close>

text \<open>
  The counters of the loop, in the order \<^verbatim>\<open>totalQueueSize\<close>, \<^verbatim>\<open>peekedRecords\<close>,
  \<^verbatim>\<open>allQueueIDs\<close>, \<^verbatim>\<open>processingIDs\<close>. \<open>statsItems\<close> is the loop over the items of one page,
  \<open>statsPages\<close> the loop over the pages.
\<close>

type_synonym statsCounters = "int \<times> int \<times> string list \<times> string list"

fun statsItems :: "Shipment list \<Rightarrow> statsCounters \<Rightarrow> statsCounters" where
  "statsItems [] acc = acc"
| "statsItems (item # rest) (totalQueueSize, peekedRecords, allQueueIDs, processingIDs) =
    statsItems rest
      (totalQueueSize + 1,
       (if SelectedFromQueue (SystemInfo item) then peekedRecords + 1 else peekedRecords),
       (if length allQueueIDs < 100 then allQueueIDs @ [Shipment.ID item] else allQueueIDs),
       (if SelectedFromQueue (SystemInfo item) \<and> length processingIDs < 100
        then processingIDs @ [Shipment.ID item] else processingIDs))"

function statsPages :: "DynamoDB \<Rightarrow> nat option \<Rightarrow> statsCounters \<Rightarrow> statsCounters \<times> DynamoDB" where
  "statsPages db exclusiveStartKey acc =
    (case Query db QueueingIndexName [''id'', ''system_info''] 1 250 exclusiveStartKey of
       (queryOutput, db') \<Rightarrow>
        (case LastEvaluatedKey queryOutput of
           None \<Rightarrow> (statsItems (Items queryOutput) acc, db')
         | Some k \<Rightarrow> statsPages db' (Some k) (statsItems (Items queryOutput) acc)))"
  by pat_completeness auto
termination
  apply (relation "measure (\<lambda>(db, k, acc). length (indexItems QueueingIndexName 1 (items db))
                           - (case k of None \<Rightarrow> 0 | Some n \<Rightarrow> n))")
   apply simp
  apply (auto simp: Query_def Let_def logCall_def split: if_splits option.splits)
  done

declare statsPages.simps [simp del]

definition GetQueueStats :: "queueSDKClient \<Rightarrow> DynamoDB \<Rightarrow> (error + QueueStats) \<times> DynamoDB" where
  "GetQueueStats c db =
    (case statsPages db None (0, 0, [], []) of
       ((totalQueueSize, peekedRecords, allQueueIDs, processingIDs), db') \<Rightarrow>
        (Inr \<lparr>First100IDsInQueue = allQueueIDs,
              First100SelectedIDsInQueue = processingIDs,
              TotalRecordsInQueue = totalQueueSize,
              TotalRecordsInProcessing = peekedRecords,
              TotalRecordsNotStarted = totalQueueSize - peekedRecords\<rparr>, db'))"

section \<open>Well-formed tables\<close>

text \<open>The primary key is unique: no two items of the table have the same \<^verbatim>\<open>id\<close>.\<close>

definition wellFormed :: "DynamoDB \<Rightarrow> bool" where
  "wellFormed db = distinct (map Shipment.ID (items db))"


section \<open>The mutating operations as requests\<close>

text \<open>
  The seven operations of the interface \<^verbatim>\<open>QueueSDKClient\<close> that write with
  \<^verbatim>\<open>updateDynamoDBItem\<close>, as one request type; \<open>mutate\<close> runs a request and returns the
  \<^verbatim>\<open>Result\<close> part of what the operation returns, \<open>target\<close> is the ID of the record a
  successful request has worked on (for \<^verbatim>\<open>Peek\<close>, the ID of the record it selected).
\<close>

datatype Mutation =
    UpdateStatusOp string Status
  | EnqueueOp string
  | PeekOp
  | RemoveOp string
  | RestoreOp string
  | SendToDLQOp string
  | TouchOp string

fun mutate :: "queueSDKClient \<Rightarrow> DynamoDB \<Rightarrow> Mutation \<Rightarrow> (error + Result) \<times> DynamoDB" where
  "mutate c db (UpdateStatusOp ident newStatus) = UpdateStatus c db ident newStatus"
| "mutate c db (EnqueueOp ident) =
    (case Enqueue c db ident of (r, db') \<Rightarrow> (map_sum id EnqueueResult.Result r, db'))"
| "mutate c db PeekOp =
    (case Peek c db of (r, db') \<Rightarrow> (map_sum id PeekResult.Result r, db'))"
| "mutate c db (RemoveOp ident) = Remove c db ident"
| "mutate c db (RestoreOp ident) = Restore c db ident"
| "mutate c db (SendToDLQOp ident) = SendToDLQ c db ident"
| "mutate c db (TouchOp ident) = Touch c db ident"

fun target :: "Mutation \<Rightarrow> Result \<Rightarrow> string" where
  "target (UpdateStatusOp ident newStatus) r = ident"
| "target (EnqueueOp ident) r = ident"
| "target PeekOp r = Result.ID r"
| "target (RemoveOp ident) r = ident"
| "target (RestoreOp ident) r = ident"
| "target (SendToDLQOp ident) r = ident"
| "target (TouchOp ident) r = ident"

text \<open>
  \<open>writesRecord c db m s\<close> holds when the request \<open>m\<close>, run on the table \<open>db\<close>, reads the
  record \<open>s\<close> and passes the checks that its operation makes before it calls
  \<^verbatim>\<open>updateDynamoDBItem\<close>; for \<^verbatim>\<open>SendToDLQ\<close>, whose condition expression has the second
  conjunct \<^verbatim>\<open>system_info.queued = 1\<close>, the record also satisfies that conjunct.
  \<open>issuedExpression c m s\<close> is the expression the operation builds for the call, and
  \<open>isRead\<close> tells the requests that read from those that write.
\<close>

fun isRead :: "Call \<Rightarrow> bool" where
  "isRead (GetItemCall key) = True"
| "isRead (QueryCall indexName) = True"
| "isRead (PutItemCall key) = False"
| "isRead (DeleteItemCall key) = False"
| "isRead (UpdateItemCall key expr) = False"

fun writesRecord :: "queueSDKClient \<Rightarrow> DynamoDB \<Rightarrow> Mutation \<Rightarrow> Shipment \<Rightarrow> bool" where
  "writesRecord c db (UpdateStatusOp ident newStatus) s =
    (ident \<noteq> [] \<and> lookupItem (items db) ident = Some s \<and>
     SystemInfo.Status (SystemInfo s) \<noteq> newStatus)"
| "writesRecord c db (EnqueueOp ident) s =
    (ident \<noteq> [] \<and> lookupItem (items db) ident = Some s \<and>
     SystemInfo.Status (SystemInfo s) \<noteq> StatusUnderConstruction \<and>
     SystemInfo.Status (SystemInfo s) = StatusReadyToShip)"
| "writesRecord c db PeekOp s =
    (wellFormed db \<and> Shipment.ID s \<noteq> [] \<and>
     find (\<lambda>item. \<not> IsQueueSelected item (clock_Now c)
                      (int64 (visibilityTimeoutInMinutes c * Minute)))
       (indexItems QueueingIndexName 1 (items db)) = Some s)"
| "writesRecord c db (RemoveOp ident) s =
    (ident \<noteq> [] \<and> lookupItem (items db) ident = Some s \<and> \<not> IsRemoved s)"
| "writesRecord c db (RestoreOp ident) s =
    (ident \<noteq> [] \<and> lookupItem (items db) ident = Some s \<and> \<not> IsEnqueued s)"
| "writesRecord c db (SendToDLQOp ident) s =
    (ident \<noteq> [] \<and> lookupItem (items db) ident = Some s \<and> \<not> IsDLQ s \<and>
     InQueue (SystemInfo s) = 1)"
| "writesRecord c db (TouchOp ident) s =
    (ident \<noteq> [] \<and> lookupItem (items db) ident = Some s)"

fun issuedExpression :: "queueSDKClient \<Rightarrow> Mutation \<Rightarrow> Shipment \<Rightarrow> Expression" where
  "issuedExpression c (UpdateStatusOp ident newStatus) s =
    UpdateStatus_expr (ChangeStatus s newStatus (clock_Now c))"
| "issuedExpression c (EnqueueOp ident) s = Enqueue_expr (MarkAsEnqueued s (clock_Now c))"
| "issuedExpression c PeekOp s =
    Peek_expr (MarkAsPeeked s (clock_Now c)) (SystemInfo.Version (SystemInfo s))"
| "issuedExpression c (RemoveOp ident) s = Remove_expr s (FormatRFC3339 (clock_Now c))"
| "issuedExpression c (RestoreOp ident) s = Restore_expr (MarkAsEnqueued s (clock_Now c))"
| "issuedExpression c (SendToDLQOp ident) s = SendToDLQ_expr (MarkAsDLQ s (clock_Now c))"
| "issuedExpression c (TouchOp ident) s = Touch_expr (Shipment_Touch s (clock_Now c))"

section \<open>Test data\<close>

text \<open>
  \<^verbatim>\<open>NewSystemInfoWithID\<close>, with the time as an argument, and the fresh record of the tests
  (\<^verbatim>\<open>newTestShipmentItem\<close>), which is in no queue.
\<close>

definition NewSystemInfoWithID :: "string \<Rightarrow> Time \<Rightarrow> SystemInfo" where
  "NewSystemInfoWithID ident now =
    \<lparr>SystemInfo.ID = ident,
     CreationTimestamp = FormatRFC3339 now,
     SystemInfo.LastUpdatedTimestamp = FormatRFC3339 now,
     SystemInfo.Status = StatusUnderConstruction,
     SystemInfo.Version = 1,
     InQueue = 0,
     SelectedFromQueue = False,
     AddToQueueTimestamp = [],
     AddToDLQTimestamp = [],
     PeekFromQueueTimestamp = [],
     RemoveFromQueueTimestamp = [],
     PeekUTCTimestamp = 0\<rparr>"

text \<open>
  Modelled from the spec: \<^verbatim>\<open>NewDefaultShipment\<close> is not under \<^verbatim>\<open>src/\<close>; a new record has
  version 1 and its timestamps are the time of creation.
\<close>

definition NewDefaultShipment :: "string \<Rightarrow> Time \<Rightarrow> Shipment" where
  "NewDefaultShipment ident now =
    \<lparr>Shipment.ID = ident,
     Data = None,
     SystemInfo = NewSystemInfoWithID ident now,
     Queued = 0,
     Shipment.LastUpdatedTimestamp = FormatRFC3339 now,
     DLQ = 0\<rparr>"

definition date :: "int \<Rightarrow> string \<Rightarrow> Time" where
  "date ms formatted = \<lparr>UnixMilli = ms, FormatRFC3339 = formatted\<rparr>"

definition newTestShipmentItem :: "string \<Rightarrow> Time \<Rightarrow> Shipment" where
  "newTestShipmentItem ident now = NewDefaultShipment ident now"

definition newTestShipmentItemAsEnqueued :: "string \<Rightarrow> Time \<Rightarrow> Shipment" where
  "newTestShipmentItemAsEnqueued ident now = MarkAsEnqueued (NewDefaultShipment ident now) now"

definition newTestShipmentItemAsPeeked :: "string \<Rightarrow> Time \<Rightarrow> Shipment" where
  "newTestShipmentItemAsPeeked ident now = MarkAsPeeked (NewDefaultShipment ident now) now"

definition newTestShipmentItemAsDLQ :: "string \<Rightarrow> Time \<Rightarrow> Shipment" where
  "newTestShipmentItemAsDLQ ident now = MarkAsDLQ (NewDefaultShipment ident now) now"

text \<open>A record as the store holds it after its version has been counted up to \<open>v\<close>.\<close>

definition withVersion :: "int \<Rightarrow> Shipment \<Rightarrow> Shipment" where
  "withVersion v shipment =
    shipment\<lparr>SystemInfo := (SystemInfo shipment)\<lparr>SystemInfo.Version := v\<rparr>\<rparr>"

definition setupDynamoDB :: "Shipment list \<Rightarrow> DynamoDB" where
  "setupDynamoDB initialData = \<lparr>items = initialData, calls = []\<rparr>"

definition testClient :: "Time \<Rightarrow> queueSDKClient" where
  "testClient now = \<lparr>visibilityTimeoutInMinutes = 1, clock_Now = now\<rparr>"


text \<open>The instants of the tests, on 2023-12-01 (UTC), named by hour, minute and second.\<close>

definition t_00_00_00 :: Time where "t_00_00_00 = date 1701388800000 ''2023-12-01T00:00:00Z''"
definition t_00_00_01 :: Time where "t_00_00_01 = date 1701388801000 ''2023-12-01T00:00:01Z''"
definition t_00_00_02 :: Time where "t_00_00_02 = date 1701388802000 ''2023-12-01T00:00:02Z''"
definition t_00_00_03 :: Time where "t_00_00_03 = date 1701388803000 ''2023-12-01T00:00:03Z''"
definition t_00_00_10 :: Time where "t_00_00_10 = date 1701388810000 ''2023-12-01T00:00:10Z''"
definition t_00_00_59 :: Time where "t_00_00_59 = date 1701388859000 ''2023-12-01T00:00:59Z''"
definition t_00_01_00 :: Time where "t_00_01_00 = date 1701388860000 ''2023-12-01T00:01:00Z''"
definition t_00_01_01 :: Time where "t_00_01_01 = date 1701388861000 ''2023-12-01T00:01:01Z''"
definition t_00_02_00 :: Time where "t_00_02_00 = date 1701388920000 ''2023-12-01T00:02:00Z''"



section \<open>The newer client\<close>

text \<open>
  Modelled from the spec: the client of the newer generation, with its operations
  \<^verbatim>\<open>SendMessage\<close>, \<^verbatim>\<open>ReceiveMessage\<close>, \<^verbatim>\<open>DeleteMessage\<close> and \<^verbatim>\<open>MoveMessageToDLQ\<close>, the
  record \<^verbatim>\<open>Message\<close> and its state transitions are not under \<^verbatim>\<open>src/\<close>; only the tests
  of the client and its caller \<^verbatim>\<open>Producer.Produce\<close> are. The definitions of this section
  follow sections 3 and 4 of the spec. A timestamp is kept as the instant it denotes, in
  nanoseconds since the epoch, and the empty timestamp as \<open>None\<close>; the queue index is ordered
  by the instant of \<^verbatim>\<open>QueueAddTimestamp\<close>.
\<close>

datatype QueueType = QueueTypeStandard | QueueTypeDLQ

datatype MessageStatus = StatusReady | StatusProcessing

record 'a Message =
  ID :: string
  Data :: 'a
  QueueType :: QueueType
  Status :: MessageStatus
  ReceiveCount :: int
  Version :: int
  CreatedAt :: int
  UpdatedAt :: int
  SentAt :: int
  ReceivedAt :: "int option"
  QueueAddTimestamp :: int
  VisibilityTimeout :: int

text \<open>Modelled from the spec: durations are given in seconds; an instant counts nanoseconds.\<close>

definition seconds :: "int \<Rightarrow> int" where
  "seconds n = n * 1000000000"

text \<open>
  Modelled from the spec: a new message has version 1, is ready, in the standard queue,
  its timestamps are now and its queue-add timestamp is now plus the delay.
\<close>

definition NewMessage :: "string \<Rightarrow> 'a \<Rightarrow> int \<Rightarrow> int \<Rightarrow> 'a Message" where
  "NewMessage ident payload now delaySeconds =
    \<lparr>Message.ID = ident,
     Message.Data = payload,
     QueueType = QueueTypeStandard,
     Message.Status = StatusReady,
     ReceiveCount = 0,
     Message.Version = 1,
     CreatedAt = now,
     UpdatedAt = now,
     SentAt = now,
     ReceivedAt = None,
     QueueAddTimestamp = now + seconds delaySeconds,
     VisibilityTimeout = 0\<rparr>"

text \<open>
  Modelled from the spec: "a record is visible iff Status=READY OR now \<ge> ReceivedAt +
  VisibilityTimeout".
\<close>

definition isVisible :: "int \<Rightarrow> 'a Message \<Rightarrow> bool" where
  "isVisible now m =
    (Message.Status m = StatusReady \<or>
     (case ReceivedAt m of
        None \<Rightarrow> False
      | Some received \<Rightarrow> now \<ge> received + seconds (VisibilityTimeout m)))"

text \<open>
  Modelled from the spec: \<^verbatim>\<open>markAsProcessing(now, visibilityTimeoutSec)\<close> is valid for a
  record of the standard queue that is ready, and fails otherwise. Ready is read as
  visible: the second branch of the visibility predicate is the recovery of a timed-out
  record, which \<^verbatim>\<open>ReceiveMessage\<close> claims by this transition. \<^verbatim>\<open>markAsMovedToDLQ(now)\<close> is
  valid from the standard queue in any status.
\<close>

definition markAsProcessing :: "'a Message \<Rightarrow> int \<Rightarrow> int \<Rightarrow> error + 'a Message" where
  "markAsProcessing m now visibilityTimeoutSec =
    (if QueueType m = QueueTypeStandard \<and> isVisible now m
     then Inr (m\<lparr>Message.Status := StatusProcessing,
                 ReceivedAt := Some now,
                 VisibilityTimeout := visibilityTimeoutSec,
                 UpdatedAt := now,
                 ReceiveCount := ReceiveCount m + 1\<rparr>)
     else Inl InvalidStateTransitionError)"

definition markAsMovedToDLQ :: "'a Message \<Rightarrow> int \<Rightarrow> error + 'a Message" where
  "markAsMovedToDLQ m now =
    (if QueueType m = QueueTypeStandard
     then Inr (m\<lparr>QueueType := QueueTypeDLQ,
                 Message.Status := StatusReady,
                 VisibilityTimeout := 0,
                 ReceiveCount := 0,
                 SentAt := now,
                 QueueAddTimestamp := now,
                 ReceivedAt := None,
                 UpdatedAt := now\<rparr>)
     else Inl InvalidStateTransitionError)"

subsection \<open>The table of messages\<close>

text \<open>
  Modelled from the spec: the three families of requests of section 4.3, with the log of
  the requests issued. A write with the condition \<^verbatim>\<open>attribute_not_exists(ID)\<close> fails when
  the ID is present; an update with a version check executes \<^verbatim>\<open>ADD version :one\<close> and its
  \<^verbatim>\<open>SET\<close> clauses only when the stored version equals the observed one; the range query
  lists one queue in ascending order of \<^verbatim>\<open>QueueAddTimestamp\<close>.
\<close>

datatype Request =
    GetItemRequest string
  | PutItemIfNotExists string
  | DeleteItemRequest string
  | UpdateItemIfVersion string int
  | QueryRequest QueueType

record 'a MessageTable =
  messages :: "'a Message list"
  requests :: "Request list"

definition logRequest :: "Request \<Rightarrow> 'a MessageTable \<Rightarrow> 'a MessageTable" where
  "logRequest r tbl = tbl\<lparr>requests := requests tbl @ [r]\<rparr>"

definition findMessage :: "'a Message list \<Rightarrow> string \<Rightarrow> 'a Message option" where
  "findMessage ms key = find (\<lambda>m. Message.ID m = key) ms"

definition getItem :: "'a MessageTable \<Rightarrow> string \<Rightarrow> 'a Message option \<times> 'a MessageTable" where
  "getItem tbl key = (findMessage (messages tbl) key, logRequest (GetItemRequest key) tbl)"

definition putItemIfNotExists ::
  "'a MessageTable \<Rightarrow> 'a Message \<Rightarrow> (error + unit) \<times> 'a MessageTable" where
  "putItemIfNotExists tbl m =
    (case findMessage (messages tbl) (Message.ID m) of
       Some existing \<Rightarrow>
        (Inl ConditionalCheckFailedError, logRequest (PutItemIfNotExists (Message.ID m)) tbl)
     | None \<Rightarrow>
        (Inr (), logRequest (PutItemIfNotExists (Message.ID m))
                   (tbl\<lparr>messages := messages tbl @ [m]\<rparr>)))"

definition deleteItem :: "'a MessageTable \<Rightarrow> string \<Rightarrow> 'a MessageTable" where
  "deleteItem tbl key =
    logRequest (DeleteItemRequest key)
      (tbl\<lparr>messages := filter (\<lambda>m. Message.ID m \<noteq> key) (messages tbl)\<rparr>)"

definition updateItemIfVersion ::
  "'a MessageTable \<Rightarrow> 'a Message \<Rightarrow> int \<Rightarrow> (error + 'a Message) \<times> 'a MessageTable" where
  "updateItemIfVersion tbl m observedVersion =
    (case findMessage (messages tbl) (Message.ID m) of
       None \<Rightarrow>
        (Inl ConditionalCheckFailedError,
         logRequest (UpdateItemIfVersion (Message.ID m) observedVersion) tbl)
     | Some stored \<Rightarrow>
        if Message.Version stored = observedVersion
        then (let new = m\<lparr>Message.Version := Message.Version stored + 1\<rparr>
              in (Inr new,
                  logRequest (UpdateItemIfVersion (Message.ID m) observedVersion)
                    (tbl\<lparr>messages :=
                       map (\<lambda>x. if Message.ID x = Message.ID m then new else x) (messages tbl)\<rparr>)))
        else (Inl ConditionalCheckFailedError,
              logRequest (UpdateItemIfVersion (Message.ID m) observedVersion) tbl))"

definition queueIndex :: "QueueType \<Rightarrow> 'a Message list \<Rightarrow> 'a Message list" where
  "queueIndex qt ms = sort_key QueueAddTimestamp (filter (\<lambda>m. QueueType m = qt) ms)"

definition queryIndex :: "'a MessageTable \<Rightarrow> QueueType \<Rightarrow> 'a Message list \<times> 'a MessageTable" where
  "queryIndex tbl qt = (queueIndex qt (messages tbl), logRequest (QueryRequest qt) tbl)"

subsection \<open>The operations\<close>

text \<open>
  Modelled from the spec: the options of the client that the operations read (\<^verbatim>\<open>UseFIFO\<close>,
  the default visibility timeout in seconds) with the reading of its injectable clock, and
  the input of \<^verbatim>\<open>SendMessage\<close>. The fields of \<^verbatim>\<open>MoveMessageToDLQOutput\<close> are the ones the
  test \<^verbatim>\<open>TestDynamoMQClientMoveMessageToDLQ\<close> compares.
\<close>

record Client =
  UseFIFO :: bool
  defaultVisibilityTimeoutSec :: int
  Clock :: int

record 'a SendMessageInput =
  ID :: string
  Data :: 'a
  DelaySeconds :: int

record MoveMessageToDLQOutput =
  ID :: string
  Status :: MessageStatus
  LastUpdatedTimestamp :: int
  Version :: int

text \<open>
  Modelled from the spec: \<^verbatim>\<open>SendMessage\<close> validates the ID, constructs the new message and
  writes it with the condition \<^verbatim>\<open>attribute_not_exists(ID)\<close>; a failed condition is
  \<^verbatim>\<open>IDDuplicatedError\<close>.
\<close>

definition SendMessage ::
  "Client \<Rightarrow> 'a MessageTable \<Rightarrow> 'a SendMessageInput \<Rightarrow> (error + 'a Message) \<times> 'a MessageTable" where
  "SendMessage c tbl input =
    (if SendMessageInput.ID input = [] then (Inl IDNotProvidedError, tbl)
     else
      (let m = NewMessage (SendMessageInput.ID input) (SendMessageInput.Data input)
                 (Clock c) (DelaySeconds input)
       in case putItemIfNotExists tbl m of
            (Inl err, tbl') \<Rightarrow>
             (Inl (if err = ConditionalCheckFailedError then IDDuplicatedError else err), tbl')
          | (Inr u, tbl') \<Rightarrow> (Inr m, tbl')))"






subsection \<open>A producer followed by a serial consumer\<close>



definition emptyTable :: "'a MessageTable" where
  "emptyTable = \<lparr>messages = [], requests = []\<rparr>"




subsection \<open>Test data of the newer client\<close>

text \<open>
  The fixtures of the tests of the newer client: \<^verbatim>\<open>time.Date(2023, 12, 1, h, m, s, 0,
  time.UTC)\<close> as an instant, \<^verbatim>\<open>newTestMessageItemAsReady\<close>, \<^verbatim>\<open>newTestMessageItemAsPeeked\<close>,
  \<^verbatim>\<open>newTestMessageItemAsDLQ\<close> (the payload of a test message is made from its ID), the table
  set up with initial data, and the client of \<^verbatim>\<open>TestDynamoMQClientReceiveMessageUseFIFO\<close>,
  with a visibility timeout of 1 and \<^verbatim>\<open>UseFIFO\<close> set.
\<close>

definition testInstant :: "int \<Rightarrow> int \<Rightarrow> int \<Rightarrow> int" where
  "testInstant h m s = seconds (1701388800 + h * 3600 + m * 60 + s)"

definition newTestMessageItemAsReady :: "string \<Rightarrow> int \<Rightarrow> string Message" where
  "newTestMessageItemAsReady ident now = NewMessage ident ident now 0"

definition newTestMessageItemAsPeeked :: "string \<Rightarrow> int \<Rightarrow> string Message" where
  "newTestMessageItemAsPeeked ident now =
    (case markAsProcessing (NewMessage ident ident now 0) now 0 of
       Inr message \<Rightarrow> message
     | Inl err \<Rightarrow> NewMessage ident ident now 0)"

definition newTestMessageItemAsDLQ :: "string \<Rightarrow> int \<Rightarrow> string Message" where
  "newTestMessageItemAsDLQ ident now =
    (case markAsMovedToDLQ (NewMessage ident ident now 0) now of
       Inr message \<Rightarrow> message
     | Inl err \<Rightarrow> NewMessage ident ident now 0)"

definition setupMessageTable :: "'a Message list \<Rightarrow> 'a MessageTable" where
  "setupMessageTable initialData = \<lparr>messages = initialData, requests = []\<rparr>"

definition testFIFOClient :: "int \<Rightarrow> Client" where
  "testFIFOClient now = \<lparr>UseFIFO = True, defaultVisibilityTimeoutSec = 1, Clock = now\<rparr>"

definition testMessageInput :: "string \<Rightarrow> string SendMessageInput" where
  "testMessageInput ident =
    \<lparr>SendMessageInput.ID = ident, SendMessageInput.Data = ident, DelaySeconds = 0\<rparr>"






section \<open>Properties of the client\<close>

lemmas test_defs = setupDynamoDB_def newTestShipmentItem_def NewDefaultShipment_def
  NewSystemInfoWithID_def date_def testClient_def lookupItem_def logCall_def
  StatusUnderConstruction_def StatusReadyToShip_def
  t_00_00_00_def t_00_00_01_def t_00_00_02_def t_00_00_03_def t_00_00_10_def
  t_00_00_59_def t_00_01_00_def t_00_01_01_def t_00_02_00_def

lemmas op_defs = Get_def GetItem_def updateDynamoDBItem_def UnmarshalMap_def fitsInt_def
  UpdateItem_def resultOf_def applyAction_def setAttr_def getAttr_def Let_def

subsection \<open>The store and the update expressions\<close>

lemma lookupItem_ID: "lookupItem its k = Some it \<Longrightarrow> Shipment.ID it = k"
  by (induction its) (auto simp: lookupItem_def split: if_splits)

lemma setAttr_ID: "Shipment.ID (setAttr name v it) = Shipment.ID it"
  by (cases v) (simp_all add: setAttr_def)

lemma applyAction_ID: "Shipment.ID (applyAction a it) = Shipment.ID it"
  by (cases a) (auto simp: applyAction_def setAttr_ID split: option.splits Value.splits)

lemma applyUpdate_ID: "Shipment.ID (applyUpdate as it) = Shipment.ID it"
  by (induction as arbitrary: it) (simp_all add: applyAction_ID)

lemma lookupItem_replace:
  "lookupItem its k = Some it \<Longrightarrow> Shipment.ID new = k \<Longrightarrow>
   lookupItem (map (\<lambda>x. if Shipment.ID x = k then new else x) its) k = Some new"
  by (induction its) (auto simp: lookupItem_def split: if_splits)

lemma UpdateItem_success:
  assumes "UpdateItem db k e = (Inr item, db')"
  shows "\<exists>it. lookupItem (items db) k = Some it \<and> evalCondition (Condition e) it \<and>
           item = applyUpdate (Update e) it \<and>
           items db' = map (\<lambda>x. if Shipment.ID x = k then item else x) (items db) \<and>
           calls db' = calls db @ [UpdateItemCall k e]"
  using assms by (auto simp: UpdateItem_def Let_def logCall_def split: option.splits if_splits)

lemmas attr_defs = applyAction_def setAttr_def getAttr_def

lemma version_UpdateStatus_expr:
  "SystemInfo.Version (SystemInfo (applyUpdate (Update (UpdateStatus_expr s)) it))
     = SystemInfo.Version (SystemInfo it) + 1"
  by (simp add: UpdateStatus_expr_def attr_defs)

lemma version_Enqueue_expr:
  "SystemInfo.Version (SystemInfo (applyUpdate (Update (Enqueue_expr s)) it))
     = SystemInfo.Version (SystemInfo it) + 1"
  by (simp add: Enqueue_expr_def attr_defs)

lemma version_Peek_expr:
  "SystemInfo.Version (SystemInfo (applyUpdate (Update (Peek_expr s v)) it))
     = SystemInfo.Version (SystemInfo it) + 1"
  by (simp add: Peek_expr_def attr_defs)

lemma version_Remove_expr:
  "SystemInfo.Version (SystemInfo (applyUpdate (Update (Remove_expr s ts)) it))
     = SystemInfo.Version (SystemInfo it) + 1"
  by (simp add: Remove_expr_def attr_defs)

lemma version_Restore_expr:
  "SystemInfo.Version (SystemInfo (applyUpdate (Update (Restore_expr s)) it))
     = SystemInfo.Version (SystemInfo it) + 1"
  by (simp add: Restore_expr_def attr_defs)

lemma version_SendToDLQ_expr:
  "SystemInfo.Version (SystemInfo (applyUpdate (Update (SendToDLQ_expr s)) it))
     = SystemInfo.Version (SystemInfo it) + 1"
  by (simp add: SendToDLQ_expr_def attr_defs)

lemma version_Touch_expr:
  "SystemInfo.Version (SystemInfo (applyUpdate (Update (Touch_expr s)) it))
     = SystemInfo.Version (SystemInfo it) + 1"
  by (simp add: Touch_expr_def attr_defs)

lemma items_logCall [simp]: "items (logCall x db) = items db"
  by (simp add: logCall_def)

lemma write_step:
  assumes "updateDynamoDBItem c db k e = (Inr item, db')"
  shows "\<exists>it. lookupItem (items db) k = Some it \<and> evalCondition (Condition e) it \<and>
           item = applyUpdate (Update e) it \<and> lookupItem (items db') k = Some item"
proof -
  from assms have u: "UpdateItem db k e = (Inr item, db')"
    by (auto simp: updateDynamoDBItem_def UnmarshalMap_def split: prod.splits sum.splits if_splits)
  from UpdateItem_success [OF u]
  obtain it where it: "lookupItem (items db) k = Some it" "evalCondition (Condition e) it"
    "item = applyUpdate (Update e) it"
    "items db' = map (\<lambda>x. if Shipment.ID x = k then item else x) (items db)"
    by blast
  have "Shipment.ID item = k"
    using it(1,3) by (simp add: applyUpdate_ID lookupItem_ID)
  then have "lookupItem (items db') k = Some item"
    using it(1,4) by (simp add: lookupItem_replace)
  with it show ?thesis by blast
qed

lemma items_peekPages: "items (snd (peekPages c db k)) = items db"
proof (induction c db k rule: peekPages.induct)
  case (1 c db k)
  show ?case
    apply (subst peekPages.simps)
    using 1 apply (auto simp: Query_def Let_def split: option.splits prod.splits if_splits)
    done
qed

lemma cond_simps:
  "evalCondition (Condition (UpdateStatus_expr m)) it \<longleftrightarrow> SystemInfo.Version (SystemInfo it) = SystemInfo.Version (SystemInfo m)"
  "evalCondition (Condition (Enqueue_expr m)) it \<longleftrightarrow> SystemInfo.Version (SystemInfo it) = SystemInfo.Version (SystemInfo m)"
  "evalCondition (Condition (Peek_expr m v)) it \<longleftrightarrow> SystemInfo.Version (SystemInfo it) = v"
  "evalCondition (Condition (Remove_expr m ts)) it \<longleftrightarrow> SystemInfo.Version (SystemInfo it) = SystemInfo.Version (SystemInfo m)"
  "evalCondition (Condition (Restore_expr m)) it \<longleftrightarrow> SystemInfo.Version (SystemInfo it) = SystemInfo.Version (SystemInfo m)"
  "evalCondition (Condition (SendToDLQ_expr m)) it \<longleftrightarrow>
     SystemInfo.Version (SystemInfo it) = SystemInfo.Version (SystemInfo m) \<and> InQueue (SystemInfo it) = 1"
  "evalCondition (Condition (Touch_expr m)) it \<longleftrightarrow> SystemInfo.Version (SystemInfo it) = SystemInfo.Version (SystemInfo m)"
  by (simp_all add: UpdateStatus_expr_def Enqueue_expr_def Peek_expr_def Remove_expr_def
      Restore_expr_def SendToDLQ_expr_def Touch_expr_def getAttr_def)

lemma mark_version:
  "SystemInfo.Version (SystemInfo (ChangeStatus s st now)) = SystemInfo.Version (SystemInfo s)"
  "SystemInfo.Version (SystemInfo (MarkAsEnqueued s now)) = SystemInfo.Version (SystemInfo s)"
  "SystemInfo.Version (SystemInfo (MarkAsPeeked s now)) = SystemInfo.Version (SystemInfo s)"
  "SystemInfo.Version (SystemInfo (MarkAsDLQ s now)) = SystemInfo.Version (SystemInfo s)"
  "SystemInfo.Version (SystemInfo (Shipment_Touch s now)) = SystemInfo.Version (SystemInfo s)"
  by (simp_all add: ChangeStatus_def MarkAsEnqueued_def MarkAsPeeked_def MarkAsDLQ_def
      Shipment_Touch_def stamp_def Let_def)

lemmas version_simps = version_UpdateStatus_expr version_Enqueue_expr version_Peek_expr
  version_Remove_expr version_Restore_expr version_SendToDLQ_expr version_Touch_expr

lemma Touch_mutation:
  assumes "Touch c db ident = (Inr r, db')"
  shows "\<exists>s s'. lookupItem (items db) ident = Some s \<and> lookupItem (items db') ident = Some s' \<and>
      SystemInfo.Version (SystemInfo s') = SystemInfo.Version (SystemInfo s) + 1 \<and>
      Result.Version r = SystemInfo.Version (SystemInfo s) + 1"
  using assms
  by (auto simp: Touch_def Get_def GetItem_def resultOf_def cond_simps mark_version version_simps
      split: if_splits option.splits sum.splits prod.splits dest!: write_step)

lemma UpdateStatus_mutation:
  assumes "UpdateStatus c db ident st = (Inr r, db')" "items db' \<noteq> items db"
  shows "\<exists>s s'. lookupItem (items db) ident = Some s \<and> lookupItem (items db') ident = Some s' \<and>
      SystemInfo.Version (SystemInfo s') = SystemInfo.Version (SystemInfo s) + 1 \<and>
      Result.Version r = SystemInfo.Version (SystemInfo s) + 1"
  using assms
  by (auto simp: UpdateStatus_def Get_def GetItem_def resultOf_def cond_simps mark_version version_simps Let_def
      split: if_splits option.splits sum.splits prod.splits dest!: write_step)

lemma Enqueue_mutation:
  assumes "Enqueue c db ident = (Inr r, db')"
  shows "\<exists>s s'. lookupItem (items db) ident = Some s \<and> lookupItem (items db') ident = Some s' \<and>
      SystemInfo.Version (SystemInfo s') = SystemInfo.Version (SystemInfo s) + 1 \<and>
      Result.Version (EnqueueResult.Result r) = SystemInfo.Version (SystemInfo s) + 1"
  using assms
  by (auto simp: Enqueue_def Get_def GetItem_def resultOf_def cond_simps mark_version version_simps Let_def
      split: if_splits option.splits sum.splits prod.splits dest!: write_step)

lemma Remove_mutation:
  assumes "Remove c db ident = (Inr r, db')" "items db' \<noteq> items db"
  shows "\<exists>s s'. lookupItem (items db) ident = Some s \<and> lookupItem (items db') ident = Some s' \<and>
      SystemInfo.Version (SystemInfo s') = SystemInfo.Version (SystemInfo s) + 1 \<and>
      Result.Version r = SystemInfo.Version (SystemInfo s) + 1"
  using assms
  by (auto simp: Remove_def Get_def GetItem_def resultOf_def cond_simps mark_version version_simps Let_def
      split: if_splits option.splits sum.splits prod.splits dest!: write_step)

lemma Restore_mutation:
  assumes "Restore c db ident = (Inr r, db')" "items db' \<noteq> items db"
  shows "\<exists>s s'. lookupItem (items db) ident = Some s \<and> lookupItem (items db') ident = Some s' \<and>
      SystemInfo.Version (SystemInfo s') = SystemInfo.Version (SystemInfo s) + 1 \<and>
      Result.Version r = SystemInfo.Version (SystemInfo s) + 1"
  using assms
  by (auto simp: Restore_def Get_def GetItem_def resultOf_def cond_simps mark_version version_simps Let_def
      split: if_splits option.splits sum.splits prod.splits dest!: write_step)

lemma SendToDLQ_mutation:
  assumes "SendToDLQ c db ident = (Inr r, db')" "items db' \<noteq> items db"
  shows "\<exists>s s'. lookupItem (items db) ident = Some s \<and> lookupItem (items db') ident = Some s' \<and>
      SystemInfo.Version (SystemInfo s') = SystemInfo.Version (SystemInfo s) + 1 \<and>
      Result.Version r = SystemInfo.Version (SystemInfo s) + 1"
  using assms
  by (auto simp: SendToDLQ_def Get_def GetItem_def resultOf_def cond_simps mark_version version_simps Let_def
      split: if_splits option.splits sum.splits prod.splits dest!: write_step)

lemma Peek_mutation:
  assumes "Peek c db = (Inr r, db')"
  shows "\<exists>s s'. lookupItem (items db) (Result.ID (PeekResult.Result r)) = Some s \<and>
      lookupItem (items db') (Result.ID (PeekResult.Result r)) = Some s' \<and>
      SystemInfo.Version (SystemInfo s') = SystemInfo.Version (SystemInfo s) + 1 \<and>
      Result.Version (PeekResult.Result r) = SystemInfo.Version (SystemInfo s) + 1"
proof -
  obtain sid sv db1 where pp: "peekPages c db None = ((sid, sv), db1)"
    by (metis prod.exhaust)
  have i1: "items db1 = items db"
    using items_peekPages [of c db None] pp by simp
  from assms pp obtain shipment item where
    sid: "sid \<noteq> []" and
    g: "lookupItem (items db1) sid = Some shipment" and
    u: "updateDynamoDBItem c (logCall (GetItemCall sid) db1) (Shipment.ID shipment)
          (Peek_expr (MarkAsPeeked shipment (clock_Now c)) sv) = (Inr item, snd (updateDynamoDBItem c (logCall (GetItemCall sid) db1) (Shipment.ID shipment)
          (Peek_expr (MarkAsPeeked shipment (clock_Now c)) sv)))" and
    r: "PeekResult.Result r = resultOf (Shipment.ID item) item" and
    d: "items db' = items (snd (updateDynamoDBItem c (logCall (GetItemCall sid) db1) (Shipment.ID shipment)
          (Peek_expr (MarkAsPeeked shipment (clock_Now c)) sv)))"
    by (auto simp: Peek_def Get_def GetItem_def split: if_splits option.splits sum.splits prod.splits)
  have sid': "Shipment.ID shipment = sid" using g by (rule lookupItem_ID)
  from write_step [OF u] obtain it where
    it: "lookupItem (items db1) (Shipment.ID shipment) = Some it"
      "evalCondition (Condition (Peek_expr (MarkAsPeeked shipment (clock_Now c)) sv)) it"
      "item = applyUpdate (Update (Peek_expr (MarkAsPeeked shipment (clock_Now c)) sv)) it"
      "lookupItem (items db') (Shipment.ID shipment) = Some item"
    using d by auto
  have "Shipment.ID item = sid"
    using it(3) it(1) sid' by (simp add: applyUpdate_ID lookupItem_ID)
  then show ?thesis
    using it sid' i1 r by (auto simp: resultOf_def version_simps)
qed


subsection \<open>Get\<close>

text \<open>
  Claim C9. \<^verbatim>\<open>Get\<close> called with the empty string as ID returns \<^verbatim>\<open>IDNotProvidedError\<close> and
  leaves the store, with its log of requests, as it is: no read is issued. For a non-empty
  ID that the table does not hold, one \<^verbatim>\<open>GetItem\<close> is issued and the result is nil with
  no error.
\<close>

theorem Get_empty_id:
  "Get c db [] = (Inl IDNotProvidedError, db) \<and>
   (ident \<noteq> [] \<and> lookupItem (items db) ident = None \<longrightarrow>
      Get c db ident = (Inr None, db\<lparr>calls := calls db @ [GetItemCall ident]\<rparr>))"
  by (simp add: Get_def GetItem_def logCall_def)

theorem Get_empty_id_witness:
  "Get (testClient (date 1701388800000 ''2023-12-01T00:00:00Z''))
       (setupDynamoDB [newTestShipmentItem ''A-101'' (date 1701388800000 ''2023-12-01T00:00:00Z'')])
       ''B-202''
   = (Inr None,
      \<lparr>items = [newTestShipmentItem ''A-101'' (date 1701388800000 ''2023-12-01T00:00:00Z'')],
       calls = [GetItemCall ''B-202'']\<rparr>)"
  using Get_empty_id [of "testClient (date 1701388800000 ''2023-12-01T00:00:00Z'')"
      "setupDynamoDB [newTestShipmentItem ''A-101'' (date 1701388800000 ''2023-12-01T00:00:00Z'')]"
      "''B-202''"]
  by (simp add: test_defs)

subsection \<open>Delete\<close>

text \<open>
  Claim C7. \<^verbatim>\<open>Delete\<close> with an empty ID returns \<^verbatim>\<open>IDNotProvidedError\<close> and issues no
  request. With a non-empty ID it issues one \<^verbatim>\<open>DeleteItem\<close> by primary key, with no
  condition, and succeeds: the ID is absent afterwards, a table that did not hold the ID
  keeps its items, and a second delete of the same ID succeeds as well and changes nothing
  more.
\<close>

theorem Delete_unconditional:
  "Delete c db [] = (Inl IDNotProvidedError, db) \<and>
   (ident \<noteq> [] \<longrightarrow>
      Delete c db ident = (Inr (), DeleteItem db ident) \<and>
      calls (DeleteItem db ident) = calls db @ [DeleteItemCall ident] \<and>
      lookupItem (items (DeleteItem db ident)) ident = None \<and>
      (lookupItem (items db) ident = None \<longrightarrow> items (DeleteItem db ident) = items db) \<and>
      fst (Delete c (snd (Delete c db ident)) ident) = Inr () \<and>
      items (snd (Delete c (snd (Delete c db ident)) ident)) = items (DeleteItem db ident))"
  by (simp add: Delete_def DeleteItem_def lookupItem_def logCall_def find_None_iff)

theorem Delete_unconditional_witness:
  "Delete (testClient (date 1701388800000 ''2023-12-01T00:00:00Z''))
       (setupDynamoDB [newTestShipmentItem ''A-101'' (date 1701388800000 ''2023-12-01T00:00:00Z'')])
       ''B-101''
   = (Inr (),
      \<lparr>items = [newTestShipmentItem ''A-101'' (date 1701388800000 ''2023-12-01T00:00:00Z'')],
       calls = [DeleteItemCall ''B-101'']\<rparr>)"
  using Delete_unconditional [of "testClient (date 1701388800000 ''2023-12-01T00:00:00Z'')"
      "setupDynamoDB [newTestShipmentItem ''A-101'' (date 1701388800000 ''2023-12-01T00:00:00Z'')]"
      "''B-101''"]
  by (simp add: test_defs DeleteItem_def)

subsection \<open>UpdateStatus with the current status\<close>

text \<open>
  Claim C10. When the requested status equals the status of the stored record,
  \<^verbatim>\<open>UpdateStatus\<close> returns a result with the ID, status, last-updated timestamp and version
  of the record as it is stored, and the only request it issues is the read: the items of
  the table, and so the version of the record, are unchanged.
\<close>

theorem UpdateStatus_same_status:
  "ident \<noteq> [] \<Longrightarrow> lookupItem (items db) ident = Some shipment \<Longrightarrow>
   SystemInfo.Status (SystemInfo shipment) = newStatus \<Longrightarrow>
   UpdateStatus c db ident newStatus =
     (Inr \<lparr>Result.ID = Shipment.ID shipment,
           Result.Status = SystemInfo.Status (SystemInfo shipment),
           Result.LastUpdatedTimestamp = SystemInfo.LastUpdatedTimestamp (SystemInfo shipment),
           Result.Version = SystemInfo.Version (SystemInfo shipment)\<rparr>,
      db\<lparr>calls := calls db @ [GetItemCall ident]\<rparr>)"
  by (simp add: UpdateStatus_def Get_def GetItem_def logCall_def)

theorem UpdateStatus_same_status_witness:
  "UpdateStatus (testClient (date 1701388810000 ''2023-12-01T00:00:10Z''))
       (setupDynamoDB [newTestShipmentItem ''A-101'' (date 1701388800000 ''2023-12-01T00:00:00Z'')])
       ''A-101'' StatusUnderConstruction
   = (Inr \<lparr>Result.ID = ''A-101'', Result.Status = StatusUnderConstruction,
           Result.LastUpdatedTimestamp = ''2023-12-01T00:00:00Z'', Result.Version = 1\<rparr>,
      \<lparr>items = [newTestShipmentItem ''A-101'' (date 1701388800000 ''2023-12-01T00:00:00Z'')],
       calls = [GetItemCall ''A-101'']\<rparr>)"
  using UpdateStatus_same_status [of "''A-101''"
      "setupDynamoDB [newTestShipmentItem ''A-101'' (date 1701388800000 ''2023-12-01T00:00:00Z'')]"
      "newTestShipmentItem ''A-101'' (date 1701388800000 ''2023-12-01T00:00:00Z'')"
      StatusUnderConstruction
      "testClient (date 1701388810000 ''2023-12-01T00:00:10Z'')"]
  by (simp add: test_defs)


subsection \<open>GetQueueStats\<close>

lemma project_fields [simp]:
  "Shipment.ID (project names it) = Shipment.ID it"
  "SystemInfo (project names it) = SystemInfo it"
  by (simp_all add: project_def)

lemma statsItems_append:
  "statsItems (xs @ ys) acc = statsItems ys (statsItems xs acc)"
  by (induction xs acc rule: statsItems.induct) simp_all

lemma take_Suc_diff:
  assumes "length (a :: 'a list) < 100"
  shows "take (100 - length a) (x # xs) = x # take (100 - Suc (length a)) xs"
proof -
  from assms have "100 - length a = Suc (100 - Suc (length a))" by arith
  then show ?thesis by (simp only: take_Suc_Cons)
qed

lemma statsItems_eq:
  "statsItems xs (t, p, a, s) =
    (t + int (length xs),
     p + int (length (filter (\<lambda>it. SelectedFromQueue (SystemInfo it)) xs)),
     a @ take (100 - length a) (map Shipment.ID xs),
     s @ take (100 - length s)
           (map Shipment.ID (filter (\<lambda>it. SelectedFromQueue (SystemInfo it)) xs)))"
proof (induction xs arbitrary: t p a s)
  case Nil
  then show ?case by simp
next
  case (Cons x xs)
  show ?case
    by (simp add: Cons.IH take_Suc_diff)
qed

lemma take_short: "length (take n xs) \<noteq> n \<Longrightarrow> take n xs = xs"
  by (metis length_take min_def take_all linorder_le_cases)

lemma page_split: "take n (drop s xs) @ drop (n + s) xs = drop s xs"
  by (metis append_take_drop_id drop_drop)

lemma statsPages_eq:
  "fst (statsPages db k acc) =
     statsItems (map (project [''id'', ''system_info''])
        (drop (case k of None \<Rightarrow> 0 | Some n \<Rightarrow> n) (indexItems QueueingIndexName 1 (items db)))) acc"
proof (induction db k acc rule: statsPages.induct)
  case (1 db k acc)
  let ?idx = "indexItems QueueingIndexName 1 (items db)"
  let ?start = "case k of None \<Rightarrow> 0 | Some n \<Rightarrow> n"
  let ?page = "take 250 (drop ?start ?idx)"
  obtain out db' where q: "Query db QueueingIndexName [''id'', ''system_info''] 1 250 k = (out, db')"
    by (metis prod.exhaust)
  then have out: "Items out = map (project [''id'', ''system_info'']) ?page"
    "LastEvaluatedKey out = (if length ?page = 250 then Some (?start + 250) else None)"
    and db': "items db' = items db"
    by (auto simp: Query_def Let_def)
  show ?case
  proof (cases "length ?page = 250")
    case True
    then have lk: "LastEvaluatedKey out = Some (?start + 250)" using out by simp
    have "fst (statsPages db k acc) = fst (statsPages db' (Some (?start + 250)) (statsItems (Items out) acc))"
      by (subst statsPages.simps) (simp add: q lk)
    also have "\<dots> = statsItems (map (project [''id'', ''system_info''])
        (drop (?start + 250) ?idx)) (statsItems (Items out) acc)"
      using "1.IH" [OF q [symmetric] lk] db' by simp
    also have "\<dots> = statsItems (map (project [''id'', ''system_info''])
        (?page @ drop (250 + ?start) ?idx)) acc"
      by (simp add: statsItems_append out add.commute)
    also have "?page @ drop (250 + ?start) ?idx = drop ?start ?idx"
      by (rule page_split)
    finally show ?thesis .
  next
    case False
    then have lk: "LastEvaluatedKey out = None" using out by simp
    have "fst (statsPages db k acc) = statsItems (Items out) acc"
      by (subst statsPages.simps) (simp add: q lk)
    also have "?page = drop ?start ?idx" using False by (rule take_short)
    ultimately show ?thesis using out by simp
  qed
qed

text \<open>
  Claim C8, as amended. \<^verbatim>\<open>GetQueueStats\<close> returns the number of records in the queue index
  as \<open>TotalRecordsInQueue\<close>, the number of those whose flag \<^verbatim>\<open>queue_selected\<close> is set as
  \<open>TotalRecordsInProcessing\<close>, their difference as \<open>TotalRecordsNotStarted\<close>, the first 100
  IDs in index order and the first 100 IDs with the flag set in index order. The flag is
  counted as it is stored: the clock and the visibility timeout are not consulted.
\<close>

theorem GetQueueStats_counts:
  "fst (GetQueueStats c db) =
     Inr \<lparr>First100IDsInQueue =
            take 100 (map Shipment.ID (indexItems QueueingIndexName 1 (items db))),
          First100SelectedIDsInQueue =
            take 100 (map Shipment.ID
              (filter (\<lambda>it. SelectedFromQueue (SystemInfo it))
                 (indexItems QueueingIndexName 1 (items db)))),
          TotalRecordsInQueue = int (length (indexItems QueueingIndexName 1 (items db))),
          TotalRecordsInProcessing =
            int (length (filter (\<lambda>it. SelectedFromQueue (SystemInfo it))
                   (indexItems QueueingIndexName 1 (items db)))),
          TotalRecordsNotStarted =
            int (length (indexItems QueueingIndexName 1 (items db))) -
            int (length (filter (\<lambda>it. SelectedFromQueue (SystemInfo it))
                   (indexItems QueueingIndexName 1 (items db))))\<rparr>"
proof -
  let ?idx = "indexItems QueueingIndexName 1 (items db)"
  obtain t p a s db' where run: "statsPages db None (0, 0, [], []) = ((t, p, a, s), db')"
    by (metis prod.exhaust)
  have "(t, p, a, s) = statsItems (map (project [''id'', ''system_info'']) ?idx) (0, 0, [], [])"
    using statsPages_eq [of db None "(0, 0, [], [])"] run by simp
  then have "t = int (length ?idx)"
    "p = int (length (filter (\<lambda>it. SelectedFromQueue (SystemInfo it)) ?idx))"
    "a = take 100 (map Shipment.ID ?idx)"
    "s = take 100 (map Shipment.ID (filter (\<lambda>it. SelectedFromQueue (SystemInfo it)) ?idx))"
    by (simp_all add: statsItems_eq filter_map comp_def)
  then show ?thesis
    by (simp add: GetQueueStats_def run)
qed


lemmas mark_defs = newTestShipmentItemAsPeeked_def newTestShipmentItemAsEnqueued_def
  newTestShipmentItemAsDLQ_def MarkAsPeeked_def MarkAsEnqueued_def MarkAsDLQ_def
  ChangeStatus_def Shipment_Touch_def stamp_def
  StatusProcessingShipment_def StatusInDLQ_def


lemmas time_defs = int64_def tdiv_def Minute_def Milliseconds_def

theorem GetQueueStats_expired_counterexample:
  "fst (GetQueueStats (testClient t_00_02_00)
          (setupDynamoDB [newTestShipmentItemAsPeeked ''A-101'' t_00_00_00]))
     = Inr \<lparr>First100IDsInQueue = [''A-101''], First100SelectedIDsInQueue = [''A-101''],
             TotalRecordsInQueue = 1, TotalRecordsInProcessing = 1, TotalRecordsNotStarted = 0\<rparr> \<and>
   filter (\<lambda>it. IsQueueSelected it (clock_Now (testClient t_00_02_00))
                   (int64 (visibilityTimeoutInMinutes (testClient t_00_02_00) * Minute)))
     (indexItems QueueingIndexName 1
        (items (setupDynamoDB [newTestShipmentItemAsPeeked ''A-101'' t_00_00_00]))) = []"
  by (simp add: GetQueueStats_def statsPages.simps Query_def indexItems_def indexPartition_def
      QueueingIndexName_def DlqQueueingIndexName_def project_def IsQueueSelected_def
      time_defs mark_defs test_defs)



subsection \<open>Peek\<close>

lemma IsQueueSelected_project [simp]:
  "IsQueueSelected (project names it) now vt = IsQueueSelected it now vt"
  by (simp add: IsQueueSelected_def)

lemma find_map_project:
  "find (\<lambda>item. \<not> IsQueueSelected item now vt) (map (project names) xs)
     = map_option (project names) (find (\<lambda>item. \<not> IsQueueSelected item now vt) xs)"
  by (induction xs) simp_all

lemma find_append_split:
  "find P (xs @ ys) = (case find P xs of None \<Rightarrow> find P ys | Some x \<Rightarrow> Some x)"
  by (induction xs) simp_all

text \<open>The scan of \<^verbatim>\<open>Peek\<close> finds the first record of the index that is not selected.\<close>

lemma peekPages_eq:
  "fst (peekPages c db k) =
     (case find (\<lambda>item. \<not> IsQueueSelected item (clock_Now c)
                          (int64 (visibilityTimeoutInMinutes c * Minute)))
            (drop (case k of None \<Rightarrow> 0 | Some n \<Rightarrow> n) (indexItems QueueingIndexName 1 (items db))) of
        Some item \<Rightarrow> (Shipment.ID item, SystemInfo.Version (SystemInfo item))
      | None \<Rightarrow> ([], 0))"
proof (induction c db k rule: peekPages.induct)
  case (1 c db k)
  let ?idx = "indexItems QueueingIndexName 1 (items db)"
  let ?start = "case k of None \<Rightarrow> 0 | Some n \<Rightarrow> n"
  let ?page = "take 250 (drop ?start ?idx)"
  let ?P = "\<lambda>item. \<not> IsQueueSelected item (clock_Now c) (int64 (visibilityTimeoutInMinutes c * Minute))"
  let ?res = "\<lambda>r. case r of Some item \<Rightarrow> (Shipment.ID item, SystemInfo.Version (SystemInfo item))
      | None \<Rightarrow> ([], 0)"
  obtain out db' where q: "Query db QueueingIndexName [''id'', ''queued'', ''system_info''] 1 250 k = (out, db')"
    by (metis prod.exhaust)
  then have out: "Items out = map (project [''id'', ''queued'', ''system_info'']) ?page"
    "LastEvaluatedKey out = (if length ?page = 250 then Some (?start + 250) else None)"
    and db': "items db' = items db"
    by (auto simp: Query_def Let_def)
  have fp: "find ?P (Items out) = map_option (project [''id'', ''queued'', ''system_info'']) (find ?P ?page)"
    unfolding out by (rule find_map_project)
  have split: "find ?P (drop ?start ?idx) =
      (case find ?P ?page of None \<Rightarrow> find ?P (drop (250 + ?start) ?idx) | Some x \<Rightarrow> Some x)"
    using find_append_split [of ?P ?page "drop (250 + ?start) ?idx"] by (simp only: page_split)
  show ?case
  proof (cases "find ?P ?page")
    case (Some item)
    have "fst (peekPages c db k) = (Shipment.ID item, SystemInfo.Version (SystemInfo item))"
      by (subst peekPages.simps) (simp add: q fp Some)
    then show ?thesis using split Some by simp
  next
    case None
    show ?thesis
    proof (cases "length ?page = 250")
      case True
      then have lk: "LastEvaluatedKey out = Some (?start + 250)" using out by simp
      have fn: "find ?P (Items out) = None" using fp None by simp
      have "fst (peekPages c db k) = fst (peekPages c db' (Some (?start + 250)))"
        by (subst peekPages.simps) (simp add: q lk fn)
      also have "\<dots> = ?res (find ?P (drop (?start + 250) ?idx))"
        using "1.IH" [OF q [symmetric] fn lk] db' by simp
      finally show ?thesis using split None by (simp add: add.commute)
    next
      case False
      then have lk: "LastEvaluatedKey out = None" using out by simp
      have fn: "find ?P (Items out) = None" using fp None by simp
      have "fst (peekPages c db k) = ([], 0)"
        by (subst peekPages.simps) (simp add: q lk fn)
      moreover have "?page = drop ?start ?idx" using False by (rule take_short)
      ultimately show ?thesis using None by simp
    qed
  qed
qed

lemma lookupItem_distinct:
  "distinct (map Shipment.ID its) \<Longrightarrow> s \<in> set its \<Longrightarrow> lookupItem its (Shipment.ID s) = Some s"
  by (induction its) (auto simp: lookupItem_def)

lemma set_indexItems: "set (indexItems n v its) \<subseteq> set its"
  by (auto simp: indexItems_def)

lemma calls_peekPages:
  "\<exists>queries. calls (snd (peekPages c db k)) = calls db @ queries \<and> list_all isRead queries"
proof (induction c db k rule: peekPages.induct)
  case (1 c db k)
  let ?P = "\<lambda>item. \<not> IsQueueSelected item (clock_Now c) (int64 (visibilityTimeoutInMinutes c * Minute))"
  obtain out db' where q: "Query db QueueingIndexName [''id'', ''queued'', ''system_info''] 1 250 k = (out, db')"
    by (metis prod.exhaust)
  then have c': "calls db' = calls db @ [QueryCall QueueingIndexName]"
    by (auto simp: Query_def Let_def logCall_def)
  show ?case
  proof (cases "find ?P (Items out)")
    case (Some item)
    have "snd (peekPages c db k) = db'"
      by (subst peekPages.simps) (simp add: q Some)
    then show ?thesis using c' by simp
  next
    case None
    show ?thesis
    proof (cases "LastEvaluatedKey out")
      case None
      have "snd (peekPages c db k) = db'"
        by (subst peekPages.simps) (simp add: q \<open>find ?P (Items out) = None\<close> None)
      then show ?thesis using c' by simp
    next
      case (Some n)
      have "snd (peekPages c db k) = snd (peekPages c db' (Some n))"
        by (subst peekPages.simps) (simp add: q None Some)
      moreover from "1.IH" [OF q [symmetric] None Some]
      obtain queries where "calls (snd (peekPages c db' (Some n))) = calls db' @ queries"
        "list_all isRead queries" by blast
      ultimately have "calls (snd (peekPages c db k)) = calls db @ (QueryCall QueueingIndexName # queries)
          \<and> list_all isRead (QueryCall QueueingIndexName # queries)"
        using c' by simp
      then show ?thesis by blast
    qed
  qed
qed

lemma Peek_update:
  "applyUpdate (Update (Peek_expr m v)) it =
    it\<lparr>Shipment.LastUpdatedTimestamp := Shipment.LastUpdatedTimestamp m,
       SystemInfo := (SystemInfo it)
         \<lparr>SystemInfo.Version := SystemInfo.Version (SystemInfo it) + 1,
          SelectedFromQueue := SelectedFromQueue (SystemInfo m),
          SystemInfo.LastUpdatedTimestamp := SystemInfo.LastUpdatedTimestamp (SystemInfo m),
          PeekFromQueueTimestamp := PeekFromQueueTimestamp (SystemInfo m),
          PeekUTCTimestamp := PeekUTCTimestamp (SystemInfo m),
          SystemInfo.Status := SystemInfo.Status (SystemInfo m)\<rparr>\<rparr>"
  by (simp add: Peek_expr_def attr_defs)

lemma Peek_empty:
  assumes "find (\<lambda>item. \<not> IsQueueSelected item (clock_Now c)
                          (int64 (visibilityTimeoutInMinutes c * Minute)))
             (indexItems QueueingIndexName 1 (items db)) = None"
  shows "fst (Peek c db) = Inl EmptyQueueError \<and> items (snd (Peek c db)) = items db"
proof -
  obtain sid sv db1 where pp: "peekPages c db None = ((sid, sv), db1)"
    by (metis prod.exhaust)
  have "items db1 = items db" using items_peekPages [of c db None] pp by simp
  moreover have "sid = []" using peekPages_eq [of c db None] pp assms by simp
  ultimately show ?thesis by (simp add: Peek_def pp)
qed

lemma Peek_claims:
  assumes wf: "wellFormed db"
    and f: "find (\<lambda>item. \<not> IsQueueSelected item (clock_Now c)
                          (int64 (visibilityTimeoutInMinutes c * Minute)))
             (indexItems QueueingIndexName 1 (items db)) = Some h"
    and ne: "Shipment.ID h \<noteq> []"
    and h': "h' = applyUpdate (Update (Peek_expr (MarkAsPeeked h (clock_Now c))
                                  (SystemInfo.Version (SystemInfo h)))) h"
  shows "fst (Peek c db) =
           (if fitsInt (SystemInfo.Version (SystemInfo h) + 1)
            then Inr \<lparr>PeekResult.Result = resultOf (Shipment.ID h) h',
                      TimestampMillisUTC = PeekUTCTimestamp (SystemInfo h'),
                      PeekedShipmentObject = Some h'\<rparr>
            else Inl UnmarshalingAttributeError) \<and>
         items (snd (Peek c db)) = map (\<lambda>x. if Shipment.ID x = Shipment.ID h then h' else x) (items db) \<and>
         (\<exists>before after.
            calls (snd (Peek c db)) =
              calls db @ before @
              [UpdateItemCall (Shipment.ID h)
                 (Peek_expr (MarkAsPeeked h (clock_Now c)) (SystemInfo.Version (SystemInfo h)))] @ after \<and>
            list_all isRead before \<and> list_all isRead after)"
proof -
  obtain sid sv db1 where pp: "peekPages c db None = ((sid, sv), db1)"
    by (metis prod.exhaust)
  have i1: "items db1 = items db" using items_peekPages [of c db None] pp by simp
  obtain queries where c1: "calls db1 = calls db @ queries" and rd: "list_all isRead queries"
    using calls_peekPages [of c db None] pp by auto
  have sel: "sid = Shipment.ID h" "sv = SystemInfo.Version (SystemInfo h)"
    using peekPages_eq [of c db None] pp f by simp_all
  have "h \<in> set (indexItems QueueingIndexName 1 (items db))"
    using f by (auto simp: find_Some_iff)
  then have "h \<in> set (items db)" using set_indexItems by blast
  then have look: "lookupItem (items db) (Shipment.ID h) = Some h"
    using wf by (simp add: wellFormed_def lookupItem_distinct)
  have id': "Shipment.ID h' = Shipment.ID h" by (simp add: h' applyUpdate_ID)
  have v': "SystemInfo.Version (SystemInfo h') = SystemInfo.Version (SystemInfo h) + 1"
    by (simp add: h' version_Peek_expr)
  have look': "lookupItem (map (\<lambda>x. if Shipment.ID x = Shipment.ID h then h' else x) (items db))
                 (Shipment.ID h) = Some h'"
    using look id' by (simp add: lookupItem_replace)
  have res: "fst (Peek c db) =
           (if fitsInt (SystemInfo.Version (SystemInfo h) + 1)
            then Inr \<lparr>PeekResult.Result = resultOf (Shipment.ID h) h',
                      TimestampMillisUTC = PeekUTCTimestamp (SystemInfo h'),
                      PeekedShipmentObject = Some h'\<rparr>
            else Inl UnmarshalingAttributeError)"
    using ne look look' id' v'
    by (simp add: Peek_def pp sel i1 Get_def GetItem_def updateDynamoDBItem_def UnmarshalMap_def
        UpdateItem_def cond_simps Let_def h' [symmetric])
  have its: "items (snd (Peek c db)) =
      map (\<lambda>x. if Shipment.ID x = Shipment.ID h then h' else x) (items db)"
    using ne look look' id' v'
    by (simp add: Peek_def pp sel i1 Get_def GetItem_def updateDynamoDBItem_def UnmarshalMap_def
        UpdateItem_def cond_simps Let_def h' [symmetric])
  have cs: "calls (snd (Peek c db)) =
      calls db @ (queries @ [GetItemCall (Shipment.ID h)]) @
      [UpdateItemCall (Shipment.ID h)
         (Peek_expr (MarkAsPeeked h (clock_Now c)) (SystemInfo.Version (SystemInfo h)))] @
      (if fitsInt (SystemInfo.Version (SystemInfo h) + 1) then [GetItemCall (Shipment.ID h)] else [])"
    using ne look look' id' v'
    by (simp add: Peek_def pp sel i1 c1 Get_def GetItem_def updateDynamoDBItem_def UnmarshalMap_def
        UpdateItem_def cond_simps Let_def logCall_def h' [symmetric])
  have "list_all isRead (queries @ [GetItemCall (Shipment.ID h)])"
    "list_all isRead (if fitsInt (SystemInfo.Version (SystemInfo h) + 1)
        then [GetItemCall (Shipment.ID h)] else [])"
    using rd by simp_all
  with cs have "\<exists>before after.
            calls (snd (Peek c db)) =
              calls db @ before @
              [UpdateItemCall (Shipment.ID h)
                 (Peek_expr (MarkAsPeeked h (clock_Now c)) (SystemInfo.Version (SystemInfo h)))] @ after \<and>
            list_all isRead before \<and> list_all isRead after"
    by blast
  with res its show ?thesis by simp
qed

lemma visibility_ms:
  assumes "0 \<le> m" "m \<le> 153722867"
  shows "Milliseconds (int64 (m * Minute)) = m * 60000"
proof -
  have b: "0 \<le> m * 60000000000" "m * 60000000000 < 2 ^ 63"
    using assms by simp_all
  then have "(m * 60000000000 + 2 ^ 63) mod 2 ^ 64 = m * 60000000000 + 2 ^ 63"
    by (intro mod_pos_pos_trivial) simp_all
  then have i: "int64 (m * Minute) = m * 60000000000"
    by (simp add: int64_def Minute_def)
  have "(m * 60000000000) div 1000000 = m * 60000"
    by simp
  then show ?thesis
    using b(1) i by (simp add: Milliseconds_def tdiv_def sgn_if)
qed

lemma find_first:
  "\<forall>x\<in>set pre. \<not> P x \<Longrightarrow> P s \<Longrightarrow> find P (pre @ s # post) = Some s"
  by (induction pre) simp_all

text \<open>
  Claim C2. With a visibility timeout of \<open>m\<close> minutes (\<open>0 \<le> m\<close>, and small enough for the
  int64 duration), a record counts as selected exactly when its flag \<^verbatim>\<open>queue_selected\<close> is
  set and now is before the time it was received plus the timeout; it is eligible
  otherwise. When every record of the queue index is selected in this sense, \<^verbatim>\<open>Peek\<close>
  returns \<^verbatim>\<open>EmptyQueueError\<close> and writes nothing. When the index consists of records that
  are selected, then a record \<open>s\<close> that is ready or whose timeout has been reached (now at
  or after the time it was received plus the timeout), \<^verbatim>\<open>Peek\<close> skips the former and claims
  \<open>s\<close>: the stored record has the version of \<open>s\<close> plus one, is selected and is received now,
  and the result carries the ID of \<open>s\<close> and that version. The one exception to the result
  is a version that no longer fits a Go int: the store has claimed the record, and \<^verbatim>\<open>Peek\<close>
  returns the error of \<^verbatim>\<open>UnmarshalMap\<close>.
\<close>

theorem Peek_visibility:
  assumes "0 \<le> visibilityTimeoutInMinutes c" and "visibilityTimeoutInMinutes c \<le> 153722867"
  shows "(IsQueueSelected x (clock_Now c) (int64 (visibilityTimeoutInMinutes c * Minute)) \<longleftrightarrow>
            SelectedFromQueue (SystemInfo x) \<and>
            UnixMilli (clock_Now c) <
              PeekUTCTimestamp (SystemInfo x) + visibilityTimeoutInMinutes c * 60000) \<and>
         ((\<forall>x \<in> set (indexItems QueueingIndexName 1 (items db)).
              SelectedFromQueue (SystemInfo x) \<and>
              UnixMilli (clock_Now c) <
                PeekUTCTimestamp (SystemInfo x) + visibilityTimeoutInMinutes c * 60000) \<longrightarrow>
            fst (Peek c db) = Inl EmptyQueueError \<and> items (snd (Peek c db)) = items db) \<and>
         (wellFormed db \<and> indexItems QueueingIndexName 1 (items db) = pre @ s # post \<and>
          (\<forall>x \<in> set pre.
              SelectedFromQueue (SystemInfo x) \<and>
              UnixMilli (clock_Now c) <
                PeekUTCTimestamp (SystemInfo x) + visibilityTimeoutInMinutes c * 60000) \<and>
          (\<not> SelectedFromQueue (SystemInfo s) \<or>
           UnixMilli (clock_Now c) \<ge>
             PeekUTCTimestamp (SystemInfo s) + visibilityTimeoutInMinutes c * 60000) \<and>
          Shipment.ID s \<noteq> [] \<longrightarrow>
            (\<exists>s'. lookupItem (items (snd (Peek c db))) (Shipment.ID s) = Some s' \<and>
               SystemInfo.Version (SystemInfo s') = SystemInfo.Version (SystemInfo s) + 1 \<and>
               SelectedFromQueue (SystemInfo s') \<and>
               PeekUTCTimestamp (SystemInfo s') = UnixMilli (clock_Now c) \<and>
               (fitsInt (SystemInfo.Version (SystemInfo s) + 1) \<longrightarrow>
                  (\<exists>r. fst (Peek c db) = Inr r \<and>
                     Result.ID (PeekResult.Result r) = Shipment.ID s \<and>
                     Result.Version (PeekResult.Result r) = SystemInfo.Version (SystemInfo s) + 1)) \<and>
               (\<not> fitsInt (SystemInfo.Version (SystemInfo s) + 1) \<longrightarrow>
                  fst (Peek c db) = Inl UnmarshalingAttributeError)))"
proof -
  let ?vt = "int64 (visibilityTimeoutInMinutes c * Minute)"
  let ?P = "\<lambda>item. \<not> IsQueueSelected item (clock_Now c) ?vt"
  have ms: "Milliseconds ?vt = visibilityTimeoutInMinutes c * 60000"
    using assms by (rule visibility_ms)
  have sel: "\<And>y. IsQueueSelected y (clock_Now c) ?vt \<longleftrightarrow>
            SelectedFromQueue (SystemInfo y) \<and>
            UnixMilli (clock_Now c) <
              PeekUTCTimestamp (SystemInfo y) + visibilityTimeoutInMinutes c * 60000"
    by (auto simp: IsQueueSelected_def ms)
  have empty: "fst (Peek c db) = Inl EmptyQueueError \<and> items (snd (Peek c db)) = items db"
    if "\<forall>x \<in> set (indexItems QueueingIndexName 1 (items db)).
              SelectedFromQueue (SystemInfo x) \<and>
              UnixMilli (clock_Now c) <
                PeekUTCTimestamp (SystemInfo x) + visibilityTimeoutInMinutes c * 60000"
  proof -
    from that have "find ?P (indexItems QueueingIndexName 1 (items db)) = None"
      by (simp add: find_None_iff sel)
    then show ?thesis by (rule Peek_empty)
  qed
  have claim: "\<exists>s'. lookupItem (items (snd (Peek c db))) (Shipment.ID s) = Some s' \<and>
               SystemInfo.Version (SystemInfo s') = SystemInfo.Version (SystemInfo s) + 1 \<and>
               SelectedFromQueue (SystemInfo s') \<and>
               PeekUTCTimestamp (SystemInfo s') = UnixMilli (clock_Now c) \<and>
               (fitsInt (SystemInfo.Version (SystemInfo s) + 1) \<longrightarrow>
                  (\<exists>r. fst (Peek c db) = Inr r \<and>
                     Result.ID (PeekResult.Result r) = Shipment.ID s \<and>
                     Result.Version (PeekResult.Result r) = SystemInfo.Version (SystemInfo s) + 1)) \<and>
               (\<not> fitsInt (SystemInfo.Version (SystemInfo s) + 1) \<longrightarrow>
                  fst (Peek c db) = Inl UnmarshalingAttributeError)"
    if h: "wellFormed db \<and> indexItems QueueingIndexName 1 (items db) = pre @ s # post \<and>
          (\<forall>x \<in> set pre.
              SelectedFromQueue (SystemInfo x) \<and>
              UnixMilli (clock_Now c) <
                PeekUTCTimestamp (SystemInfo x) + visibilityTimeoutInMinutes c * 60000) \<and>
          (\<not> SelectedFromQueue (SystemInfo s) \<or>
           UnixMilli (clock_Now c) \<ge>
             PeekUTCTimestamp (SystemInfo s) + visibilityTimeoutInMinutes c * 60000) \<and>
          Shipment.ID s \<noteq> []"
  proof -
    define s' where "s' = applyUpdate (Update (Peek_expr (MarkAsPeeked s (clock_Now c))
                                  (SystemInfo.Version (SystemInfo s)))) s"
    from h have "\<forall>x\<in>set pre. \<not> ?P x" by (simp add: sel)
    moreover from h have "?P s" by (auto simp: sel)
    ultimately have f: "find ?P (indexItems QueueingIndexName 1 (items db)) = Some s"
      using h find_first [of pre ?P s post] by simp
    from h have wf: "wellFormed db" and ne: "Shipment.ID s \<noteq> []" by simp_all
    note pc = Peek_claims [OF wf f ne s'_def]
    have "s \<in> set (items db)"
      using h set_indexItems [of QueueingIndexName 1 "items db"] by auto
    then have look: "lookupItem (items db) (Shipment.ID s) = Some s"
      using wf by (simp add: wellFormed_def lookupItem_distinct)
    have id': "Shipment.ID s' = Shipment.ID s" by (simp add: s'_def applyUpdate_ID)
    have look': "lookupItem (items (snd (Peek c db))) (Shipment.ID s) = Some s'"
      using pc look id' by (simp add: lookupItem_replace)
    have fields: "SystemInfo.Version (SystemInfo s') = SystemInfo.Version (SystemInfo s) + 1"
      "SelectedFromQueue (SystemInfo s')" "PeekUTCTimestamp (SystemInfo s') = UnixMilli (clock_Now c)"
      by (simp_all add: s'_def Peek_update MarkAsPeeked_def stamp_def Let_def)
    show ?thesis
      apply (rule exI [of _ s'])
      using pc look' fields by (simp add: resultOf_def)
  qed
  show ?thesis
    using sel [of x] empty claim by blast
qed

lemmas query_defs = peekPages.simps Query_def indexItems_def indexPartition_def
  QueueingIndexName_def DlqQueueingIndexName_def project_def IsQueueSelected_def

theorem Peek_visibility_witness:
  "fst (Peek (testClient t_00_00_59)
          (setupDynamoDB [newTestShipmentItem ''A-101'' t_00_00_00,
                          newTestShipmentItemAsPeeked ''B-202'' t_00_00_00]))
     = Inl EmptyQueueError \<and>
   fst (mutate (testClient t_00_01_00)
          (setupDynamoDB [newTestShipmentItem ''A-101'' t_00_00_00,
                          newTestShipmentItemAsPeeked ''B-202'' t_00_00_00]) PeekOp)
     = Inr \<lparr>Result.ID = ''B-202'', Result.Status = StatusProcessingShipment,
             Result.LastUpdatedTimestamp = ''2023-12-01T00:01:00Z'', Result.Version = 2\<rparr> \<and>
   fst (Peek (testClient t_00_01_00)
          (setupDynamoDB [withVersion 9223372036854775807
                            (newTestShipmentItemAsPeeked ''B-202'' t_00_00_00)]))
     = Inl UnmarshalingAttributeError \<and>
   map (\<lambda>s. SystemInfo.Version (SystemInfo s))
     (items (snd (Peek (testClient t_00_01_00)
          (setupDynamoDB [withVersion 9223372036854775807
                            (newTestShipmentItemAsPeeked ''B-202'' t_00_00_00)]))))
     = [9223372036854775808]"
  using Peek_visibility [where c = "testClient t_00_00_59" and x = "newTestShipmentItemAsPeeked ''B-202'' t_00_00_00"
      and db = "setupDynamoDB [newTestShipmentItem ''A-101'' t_00_00_00,
                          newTestShipmentItemAsPeeked ''B-202'' t_00_00_00]"
      and pre = "[]" and s = "newTestShipmentItemAsPeeked ''B-202'' t_00_00_00" and post = "[]"]
    Peek_visibility [where c = "testClient t_00_01_00" and x = "newTestShipmentItemAsPeeked ''B-202'' t_00_00_00"
      and db = "setupDynamoDB [newTestShipmentItem ''A-101'' t_00_00_00,
                          newTestShipmentItemAsPeeked ''B-202'' t_00_00_00]"
      and pre = "[]" and s = "newTestShipmentItemAsPeeked ''B-202'' t_00_00_00" and post = "[]"]
    Peek_visibility [where c = "testClient t_00_01_00"
      and x = "withVersion 9223372036854775807 (newTestShipmentItemAsPeeked ''B-202'' t_00_00_00)"
      and db = "setupDynamoDB [withVersion 9223372036854775807
                                 (newTestShipmentItemAsPeeked ''B-202'' t_00_00_00)]"
      and pre = "[]"
      and s = "withVersion 9223372036854775807 (newTestShipmentItemAsPeeked ''B-202'' t_00_00_00)"
      and post = "[]"]
  by (simp add: Peek_def Peek_expr_def query_defs time_defs mark_defs op_defs test_defs
      withVersion_def)


subsection \<open>The sort key of the queue index at receive time\<close>

text \<open>
  Claim C4. The claim is that \<^verbatim>\<open>Peek\<close> leaves the sort key of the queue index, the
  top-level \<^verbatim>\<open>last_updated_timestamp\<close>, as it is, which is also what the comments in
  \<^verbatim>\<open>Peek\<close> say. The update expression of \<^verbatim>\<open>Peek\<close> has a \<^verbatim>\<open>SET\<close> clause on that attribute.
  In a queue of two records enqueued at 00:00:01 and 00:00:02, \<^verbatim>\<open>Peek\<close> at 00:00:10 claims
  the first one and stores 00:00:10 as its sort key; when its visibility timeout of one
  minute has expired, \<^verbatim>\<open>Peek\<close> at 00:02:00 claims the second record, which is now first in
  the index.
\<close>

theorem Peek_rewrites_sort_key:
  "SET ''last_updated_timestamp'' (S (Shipment.LastUpdatedTimestamp m))
     \<in> set (Update (Peek_expr m v)) \<and>
   map Shipment.LastUpdatedTimestamp
     (items (setupDynamoDB [newTestShipmentItemAsEnqueued ''A-101'' t_00_00_01,
                            newTestShipmentItemAsEnqueued ''B-202'' t_00_00_02]))
     = [''2023-12-01T00:00:01Z'', ''2023-12-01T00:00:02Z''] \<and>
   fst (mutate (testClient t_00_00_10)
          (setupDynamoDB [newTestShipmentItemAsEnqueued ''A-101'' t_00_00_01,
                          newTestShipmentItemAsEnqueued ''B-202'' t_00_00_02]) PeekOp)
     = Inr \<lparr>Result.ID = ''A-101'', Result.Status = StatusProcessingShipment,
             Result.LastUpdatedTimestamp = ''2023-12-01T00:00:10Z'', Result.Version = 2\<rparr> \<and>
   map Shipment.LastUpdatedTimestamp
     (items (snd (Peek (testClient t_00_00_10)
        (setupDynamoDB [newTestShipmentItemAsEnqueued ''A-101'' t_00_00_01,
                        newTestShipmentItemAsEnqueued ''B-202'' t_00_00_02]))))
     = [''2023-12-01T00:00:10Z'', ''2023-12-01T00:00:02Z''] \<and>
   fst (mutate (testClient t_00_02_00)
          (snd (Peek (testClient t_00_00_10)
             (setupDynamoDB [newTestShipmentItemAsEnqueued ''A-101'' t_00_00_01,
                             newTestShipmentItemAsEnqueued ''B-202'' t_00_00_02]))) PeekOp)
     = Inr \<lparr>Result.ID = ''B-202'', Result.Status = StatusProcessingShipment,
             Result.LastUpdatedTimestamp = ''2023-12-01T00:02:00Z'', Result.Version = 2\<rparr>"
  by (simp add: Peek_def Peek_expr_def query_defs time_defs mark_defs op_defs test_defs)



subsection \<open>Optimistic concurrency\<close>

lemma UpdateStatus_writes:
  assumes "writesRecord c db (UpdateStatusOp ident newStatus) s"
  shows "mutate c db (UpdateStatusOp ident newStatus) =
     (if fitsInt (SystemInfo.Version (SystemInfo s) + 1)
      then Inr (resultOf
             (SystemInfo.ID (SystemInfo
                (applyUpdate (Update (issuedExpression c (UpdateStatusOp ident newStatus) s)) s)))
             (applyUpdate (Update (issuedExpression c (UpdateStatusOp ident newStatus) s)) s))
      else Inl UnmarshalingAttributeError,
      \<lparr>items = map (\<lambda>x. if Shipment.ID x = ident
                        then applyUpdate (Update (issuedExpression c (UpdateStatusOp ident newStatus) s)) s
                        else x) (items db),
       calls = calls db @ [GetItemCall ident,
                 UpdateItemCall ident (issuedExpression c (UpdateStatusOp ident newStatus) s)]\<rparr>)"
  using assms
  by (simp add: UpdateStatus_def Get_def GetItem_def updateDynamoDBItem_def UpdateItem_def
      UnmarshalMap_def cond_simps mark_version version_simps logCall_def Let_def)

lemma Enqueue_writes:
  assumes "writesRecord c db (EnqueueOp ident) s"
  shows "mutate c db (EnqueueOp ident) =
     (if fitsInt (SystemInfo.Version (SystemInfo s) + 1)
      then Inr (resultOf (Shipment.ID (applyUpdate (Update (issuedExpression c (EnqueueOp ident) s)) s))
                  (applyUpdate (Update (issuedExpression c (EnqueueOp ident) s)) s))
      else Inl UnmarshalingAttributeError,
      \<lparr>items = map (\<lambda>x. if Shipment.ID x = ident
                        then applyUpdate (Update (issuedExpression c (EnqueueOp ident) s)) s
                        else x) (items db),
       calls = calls db @ [GetItemCall ident,
                 UpdateItemCall ident (issuedExpression c (EnqueueOp ident) s)] @
               (if fitsInt (SystemInfo.Version (SystemInfo s) + 1) then [GetItemCall ident] else [])\<rparr>)"
  using assms
  by (simp add: Enqueue_def Get_def GetItem_def updateDynamoDBItem_def UpdateItem_def
      UnmarshalMap_def cond_simps mark_version version_simps logCall_def Let_def
      StatusReadyToShip_def StatusUnderConstruction_def)

lemma Remove_writes:
  assumes "writesRecord c db (RemoveOp ident) s"
  shows "mutate c db (RemoveOp ident) =
     (if fitsInt (SystemInfo.Version (SystemInfo s) + 1)
      then Inr (resultOf ident (applyUpdate (Update (issuedExpression c (RemoveOp ident) s)) s))
      else Inl UnmarshalingAttributeError,
      \<lparr>items = map (\<lambda>x. if Shipment.ID x = ident
                        then applyUpdate (Update (issuedExpression c (RemoveOp ident) s)) s
                        else x) (items db),
       calls = calls db @ [GetItemCall ident,
                 UpdateItemCall ident (issuedExpression c (RemoveOp ident) s)]\<rparr>)"
  using assms
  by (simp add: Remove_def Get_def GetItem_def updateDynamoDBItem_def UpdateItem_def
      UnmarshalMap_def cond_simps mark_version version_simps logCall_def Let_def)

lemma Restore_writes:
  assumes "writesRecord c db (RestoreOp ident) s"
  shows "mutate c db (RestoreOp ident) =
     (if fitsInt (SystemInfo.Version (SystemInfo s) + 1)
      then Inr (resultOf ident (applyUpdate (Update (issuedExpression c (RestoreOp ident) s)) s))
      else Inl UnmarshalingAttributeError,
      \<lparr>items = map (\<lambda>x. if Shipment.ID x = ident
                        then applyUpdate (Update (issuedExpression c (RestoreOp ident) s)) s
                        else x) (items db),
       calls = calls db @ [GetItemCall ident,
                 UpdateItemCall ident (issuedExpression c (RestoreOp ident) s)]\<rparr>)"
  using assms
  by (simp add: Restore_def Get_def GetItem_def updateDynamoDBItem_def UpdateItem_def
      UnmarshalMap_def cond_simps mark_version version_simps logCall_def Let_def)

lemma SendToDLQ_writes:
  assumes "writesRecord c db (SendToDLQOp ident) s"
  shows "mutate c db (SendToDLQOp ident) =
     (if fitsInt (SystemInfo.Version (SystemInfo s) + 1)
      then Inr (resultOf ident (applyUpdate (Update (issuedExpression c (SendToDLQOp ident) s)) s))
      else Inl UnmarshalingAttributeError,
      \<lparr>items = map (\<lambda>x. if Shipment.ID x = ident
                        then applyUpdate (Update (issuedExpression c (SendToDLQOp ident) s)) s
                        else x) (items db),
       calls = calls db @ [GetItemCall ident,
                 UpdateItemCall ident (issuedExpression c (SendToDLQOp ident) s)]\<rparr>)"
  using assms
  by (simp add: SendToDLQ_def Get_def GetItem_def updateDynamoDBItem_def UpdateItem_def
      UnmarshalMap_def cond_simps mark_version version_simps logCall_def Let_def)

lemma Touch_writes:
  assumes "writesRecord c db (TouchOp ident) s"
  shows "mutate c db (TouchOp ident) =
     (if fitsInt (SystemInfo.Version (SystemInfo s) + 1)
      then Inr (resultOf ident (applyUpdate (Update (issuedExpression c (TouchOp ident) s)) s))
      else Inl UnmarshalingAttributeError,
      \<lparr>items = map (\<lambda>x. if Shipment.ID x = ident
                        then applyUpdate (Update (issuedExpression c (TouchOp ident) s)) s
                        else x) (items db),
       calls = calls db @ [GetItemCall ident,
                 UpdateItemCall ident (issuedExpression c (TouchOp ident) s)]\<rparr>)"
  using assms
  by (simp add: Touch_def Get_def GetItem_def updateDynamoDBItem_def UpdateItem_def
      UnmarshalMap_def cond_simps mark_version version_simps logCall_def Let_def)

lemma version_issuedExpression:
  "SystemInfo.Version (SystemInfo (applyUpdate (Update (issuedExpression c m s)) it))
     = SystemInfo.Version (SystemInfo it) + 1"
  by (cases m) (simp_all add: version_simps)

lemma cond_issuedExpression:
  "evalCondition (Condition (issuedExpression c m s)) it \<Longrightarrow>
     SystemInfo.Version (SystemInfo it) = SystemInfo.Version (SystemInfo s)"
  by (cases m) (simp_all add: cond_simps mark_version)

text \<open>What a request that reaches its write leaves behind, and what it returns.\<close>

lemma mutate_writes:
  assumes w: "writesRecord c db m s"
  shows "\<exists>before after.
      items (snd (mutate c db m)) =
        map (\<lambda>x. if Shipment.ID x = Shipment.ID s
                  then applyUpdate (Update (issuedExpression c m s)) s else x) (items db) \<and>
      lookupItem (items db) (Shipment.ID s) = Some s \<and>
      calls (snd (mutate c db m)) =
        calls db @ before @ [UpdateItemCall (Shipment.ID s) (issuedExpression c m s)] @ after \<and>
      list_all isRead before \<and> list_all isRead after \<and>
      (fitsInt (SystemInfo.Version (SystemInfo s) + 1) \<longrightarrow>
         (\<exists>r. fst (mutate c db m) = Inr r \<and>
               Result.Version r = SystemInfo.Version (SystemInfo s) + 1 \<and>
               target m r = Shipment.ID s)) \<and>
      (\<not> fitsInt (SystemInfo.Version (SystemInfo s) + 1) \<longrightarrow>
         fst (mutate c db m) = Inl UnmarshalingAttributeError)"
proof (cases m)
  case (UpdateStatusOp i st)
  have i: "Shipment.ID s = i" using w UpdateStatusOp by (auto dest: lookupItem_ID)
  show ?thesis
    apply (rule exI [of _ "[GetItemCall i]"])
    apply (rule exI [of _ "[]"])
    using w i unfolding UpdateStatusOp UpdateStatus_writes [OF w [unfolded UpdateStatusOp]]
    by (simp add: resultOf_def version_issuedExpression del: mutate.simps issuedExpression.simps)
next
  case (EnqueueOp i)
  have i: "Shipment.ID s = i" using w EnqueueOp by (auto dest: lookupItem_ID)
  show ?thesis
    apply (rule exI [of _ "[GetItemCall i]"])
    apply (rule exI [of _ "if fitsInt (SystemInfo.Version (SystemInfo s) + 1) then [GetItemCall i] else []"])
    using w i unfolding EnqueueOp Enqueue_writes [OF w [unfolded EnqueueOp]]
    by (simp add: resultOf_def version_issuedExpression del: mutate.simps issuedExpression.simps)
next
  case PeekOp
  define s' where "s' = applyUpdate (Update (Peek_expr (MarkAsPeeked s (clock_Now c))
                                  (SystemInfo.Version (SystemInfo s)))) s"
  from w PeekOp have wf: "wellFormed db" and ne: "Shipment.ID s \<noteq> []"
    and f: "find (\<lambda>item. \<not> IsQueueSelected item (clock_Now c)
                          (int64 (visibilityTimeoutInMinutes c * Minute)))
             (indexItems QueueingIndexName 1 (items db)) = Some s"
    by simp_all
  note pc = Peek_claims [OF wf f ne s'_def]
  have "s \<in> set (indexItems QueueingIndexName 1 (items db))"
    using f by (auto simp: find_Some_iff)
  then have "s \<in> set (items db)" using set_indexItems by blast
  then have look: "lookupItem (items db) (Shipment.ID s) = Some s"
    using wf by (simp add: wellFormed_def lookupItem_distinct)
  have v': "SystemInfo.Version (SystemInfo s') = SystemInfo.Version (SystemInfo s) + 1"
    by (simp add: s'_def version_Peek_expr)
  from pc obtain before after where
    cs: "calls (snd (Peek c db)) =
              calls db @ before @
              [UpdateItemCall (Shipment.ID s)
                 (Peek_expr (MarkAsPeeked s (clock_Now c)) (SystemInfo.Version (SystemInfo s)))] @ after"
      "list_all isRead before" "list_all isRead after"
    by blast
  have sn: "snd (mutate c db PeekOp) = snd (Peek c db)"
    and fs: "fst (mutate c db PeekOp) = map_sum id PeekResult.Result (fst (Peek c db))"
    by (simp_all split: prod.splits)
  show ?thesis
    apply (rule exI [of _ before])
    apply (rule exI [of _ after])
    unfolding PeekOp sn fs
    using pc cs look v' by (simp add: s'_def [symmetric] resultOf_def)
next
  case (RemoveOp i)
  have i: "Shipment.ID s = i" using w RemoveOp by (auto dest: lookupItem_ID)
  show ?thesis
    apply (rule exI [of _ "[GetItemCall i]"])
    apply (rule exI [of _ "[]"])
    using w i unfolding RemoveOp Remove_writes [OF w [unfolded RemoveOp]]
    by (simp add: resultOf_def version_issuedExpression del: mutate.simps issuedExpression.simps)
next
  case (RestoreOp i)
  have i: "Shipment.ID s = i" using w RestoreOp by (auto dest: lookupItem_ID)
  show ?thesis
    apply (rule exI [of _ "[GetItemCall i]"])
    apply (rule exI [of _ "[]"])
    using w i unfolding RestoreOp Restore_writes [OF w [unfolded RestoreOp]]
    by (simp add: resultOf_def version_issuedExpression del: mutate.simps issuedExpression.simps)
next
  case (SendToDLQOp i)
  have i: "Shipment.ID s = i" using w SendToDLQOp by (auto dest: lookupItem_ID)
  show ?thesis
    apply (rule exI [of _ "[GetItemCall i]"])
    apply (rule exI [of _ "[]"])
    using w i unfolding SendToDLQOp SendToDLQ_writes [OF w [unfolded SendToDLQOp]]
    by (simp add: resultOf_def version_issuedExpression del: mutate.simps issuedExpression.simps)
next
  case (TouchOp i)
  have i: "Shipment.ID s = i" using w TouchOp by (auto dest: lookupItem_ID)
  show ?thesis
    apply (rule exI [of _ "[GetItemCall i]"])
    apply (rule exI [of _ "[]"])
    using w i unfolding TouchOp Touch_writes [OF w [unfolded TouchOp]]
    by (simp add: resultOf_def version_issuedExpression del: mutate.simps issuedExpression.simps)
qed


text \<open>
  Claim C1. For each of the seven mutating operations (\<^verbatim>\<open>UpdateStatus\<close>, \<^verbatim>\<open>Enqueue\<close>,
  \<^verbatim>\<open>Peek\<close>, \<^verbatim>\<open>Remove\<close>, \<^verbatim>\<open>Restore\<close>, \<^verbatim>\<open>SendToDLQ\<close>, \<^verbatim>\<open>Touch\<close>), run as the request
  \<open>m\<close> on a table where it reads the record \<open>s\<close> at version \<open>v\<close> and passes its checks:
  the operation issues, after reads only and before reads only, exactly the request
  \<^verbatim>\<open>UpdateItem\<close> on the ID of \<open>s\<close> with the expression \<open>issuedExpression c m s\<close>; the record
  stored afterwards has version \<open>v + 1\<close>; the operation succeeds with version \<open>v + 1\<close> in
  its result when \<open>v + 1\<close> fits a Go int, and returns \<^verbatim>\<open>UnmarshalingAttributeError\<close>, after
  the store has written, when it does not. That expression, sent to the store in whatever
  state \<open>dbw\<close> the table is at the time of the write, is executed only when the stored
  version is \<open>v\<close> and leaves version \<open>v + 1\<close>; when the record is missing or its stored
  version differs from \<open>v\<close>, the write fails with \<^verbatim>\<open>ConditionalCheckFailedError\<close> and the
  items are unchanged. Conversely, whenever one of the operations succeeds and the table
  has changed, it found the record at some version and left it, and its result, at that
  version plus one.
\<close>

theorem version_incremented_under_check:
  "(writesRecord c db m s \<longrightarrow>
      (\<exists>s' before after.
          lookupItem (items db) (Shipment.ID s) = Some s \<and>
          calls (snd (mutate c db m)) =
            calls db @ before @ [UpdateItemCall (Shipment.ID s) (issuedExpression c m s)] @ after \<and>
          list_all isRead before \<and> list_all isRead after \<and>
          lookupItem (items (snd (mutate c db m))) (Shipment.ID s) = Some s' \<and>
          SystemInfo.Version (SystemInfo s') = SystemInfo.Version (SystemInfo s) + 1 \<and>
          (fitsInt (SystemInfo.Version (SystemInfo s) + 1) \<longrightarrow>
             (\<exists>r. fst (mutate c db m) = Inr r \<and>
                   Result.Version r = SystemInfo.Version (SystemInfo s) + 1 \<and>
                   target m r = Shipment.ID s)) \<and>
          (\<not> fitsInt (SystemInfo.Version (SystemInfo s) + 1) \<longrightarrow>
             fst (mutate c db m) = Inl UnmarshalingAttributeError))) \<and>
   (updateDynamoDBItem c dbw k (issuedExpression c m s) = (Inr item, dbw') \<longrightarrow>
      (\<exists>stored. lookupItem (items dbw) k = Some stored \<and>
                 SystemInfo.Version (SystemInfo stored) = SystemInfo.Version (SystemInfo s) \<and>
                 lookupItem (items dbw') k = Some item \<and>
                 SystemInfo.Version (SystemInfo item) = SystemInfo.Version (SystemInfo s) + 1)) \<and>
   (map_option (\<lambda>stored. SystemInfo.Version (SystemInfo stored)) (lookupItem (items dbw) k)
      \<noteq> Some (SystemInfo.Version (SystemInfo s)) \<longrightarrow>
      fst (updateDynamoDBItem c dbw k (issuedExpression c m s)) = Inl ConditionalCheckFailedError \<and>
      items (snd (updateDynamoDBItem c dbw k (issuedExpression c m s))) = items dbw) \<and>
   (mutate c db m = (Inr r, db') \<and> items db' \<noteq> items db \<longrightarrow>
      (\<exists>s0 s'. lookupItem (items db) (target m r) = Some s0 \<and>
               lookupItem (items db') (target m r) = Some s' \<and>
               SystemInfo.Version (SystemInfo s') = SystemInfo.Version (SystemInfo s0) + 1 \<and>
               Result.Version r = SystemInfo.Version (SystemInfo s0) + 1))"
proof -
  have forward: "\<exists>s' before after.
          lookupItem (items db) (Shipment.ID s) = Some s \<and>
          calls (snd (mutate c db m)) =
            calls db @ before @ [UpdateItemCall (Shipment.ID s) (issuedExpression c m s)] @ after \<and>
          list_all isRead before \<and> list_all isRead after \<and>
          lookupItem (items (snd (mutate c db m))) (Shipment.ID s) = Some s' \<and>
          SystemInfo.Version (SystemInfo s') = SystemInfo.Version (SystemInfo s) + 1 \<and>
          (fitsInt (SystemInfo.Version (SystemInfo s) + 1) \<longrightarrow>
             (\<exists>r. fst (mutate c db m) = Inr r \<and>
                   Result.Version r = SystemInfo.Version (SystemInfo s) + 1 \<and>
                   target m r = Shipment.ID s)) \<and>
          (\<not> fitsInt (SystemInfo.Version (SystemInfo s) + 1) \<longrightarrow>
             fst (mutate c db m) = Inl UnmarshalingAttributeError)"
    if w: "writesRecord c db m s"
  proof -
    define s' where "s' = applyUpdate (Update (issuedExpression c m s)) s"
    from mutate_writes [OF w] obtain before after where
      mw: "items (snd (mutate c db m)) =
             map (\<lambda>x. if Shipment.ID x = Shipment.ID s then s' else x) (items db)"
        "lookupItem (items db) (Shipment.ID s) = Some s"
        "calls (snd (mutate c db m)) =
           calls db @ before @ [UpdateItemCall (Shipment.ID s) (issuedExpression c m s)] @ after"
        "list_all isRead before" "list_all isRead after"
        "fitsInt (SystemInfo.Version (SystemInfo s) + 1) \<longrightarrow>
           (\<exists>r. fst (mutate c db m) = Inr r \<and>
                 Result.Version r = SystemInfo.Version (SystemInfo s) + 1 \<and>
                 target m r = Shipment.ID s)"
        "\<not> fitsInt (SystemInfo.Version (SystemInfo s) + 1) \<longrightarrow>
           fst (mutate c db m) = Inl UnmarshalingAttributeError"
      unfolding s'_def by blast
    have id': "Shipment.ID s' = Shipment.ID s" by (simp add: s'_def applyUpdate_ID)
    have look': "lookupItem (items (snd (mutate c db m))) (Shipment.ID s) = Some s'"
      using mw(1,2) id' by (simp add: lookupItem_replace)
    have v': "SystemInfo.Version (SystemInfo s') = SystemInfo.Version (SystemInfo s) + 1"
      by (simp add: s'_def version_issuedExpression)
    from mw(2-7) look' v' show ?thesis by blast
  qed
  have executed: "\<exists>stored. lookupItem (items dbw) k = Some stored \<and>
                 SystemInfo.Version (SystemInfo stored) = SystemInfo.Version (SystemInfo s) \<and>
                 lookupItem (items dbw') k = Some item \<and>
                 SystemInfo.Version (SystemInfo item) = SystemInfo.Version (SystemInfo s) + 1"
    if u: "updateDynamoDBItem c dbw k (issuedExpression c m s) = (Inr item, dbw')"
  proof -
    from write_step [OF u] obtain it where
      it: "lookupItem (items dbw) k = Some it"
        "evalCondition (Condition (issuedExpression c m s)) it"
        "item = applyUpdate (Update (issuedExpression c m s)) it"
        "lookupItem (items dbw') k = Some item"
      by blast
    from it(2) have "SystemInfo.Version (SystemInfo it) = SystemInfo.Version (SystemInfo s)"
      by (rule cond_issuedExpression)
    moreover from it(3)
    have "SystemInfo.Version (SystemInfo item) = SystemInfo.Version (SystemInfo it) + 1"
      by (simp add: version_issuedExpression)
    ultimately show ?thesis using it by simp
  qed
  have refused: "fst (updateDynamoDBItem c dbw k (issuedExpression c m s)) = Inl ConditionalCheckFailedError \<and>
      items (snd (updateDynamoDBItem c dbw k (issuedExpression c m s))) = items dbw"
    if n: "map_option (\<lambda>stored. SystemInfo.Version (SystemInfo stored)) (lookupItem (items dbw) k)
      \<noteq> Some (SystemInfo.Version (SystemInfo s))"
  proof (cases "lookupItem (items dbw) k")
    case None
    then show ?thesis by (simp add: updateDynamoDBItem_def UpdateItem_def)
  next
    case (Some stored)
    with n have "\<not> evalCondition (Condition (issuedExpression c m s)) stored"
      using cond_issuedExpression [of c m s stored] by auto
    with Some show ?thesis by (simp add: updateDynamoDBItem_def UpdateItem_def)
  qed
  have changed: "\<exists>s0 s'. lookupItem (items db) (target m r) = Some s0 \<and>
               lookupItem (items db') (target m r) = Some s' \<and>
               SystemInfo.Version (SystemInfo s') = SystemInfo.Version (SystemInfo s0) + 1 \<and>
               Result.Version r = SystemInfo.Version (SystemInfo s0) + 1"
    if a: "mutate c db m = (Inr r, db') \<and> items db' \<noteq> items db"
  proof (cases m)
    case (UpdateStatusOp i x)
    then show ?thesis using a UpdateStatus_mutation [of c db i x r db'] by simp
  next
    case (EnqueueOp i)
    then show ?thesis using a Enqueue_mutation [of c db i _ db']
      by (auto split: prod.splits sum.splits simp: map_sum_def)
  next
    case PeekOp
    then show ?thesis using a Peek_mutation [of c db _ db']
      by (auto split: prod.splits sum.splits simp: map_sum_def)
  next
    case (RemoveOp i)
    then show ?thesis using a Remove_mutation [of c db i r db'] by simp
  next
    case (RestoreOp i)
    then show ?thesis using a Restore_mutation [of c db i r db'] by simp
  next
    case (SendToDLQOp i)
    then show ?thesis using a SendToDLQ_mutation [of c db i r db'] by simp
  next
    case (TouchOp i)
    then show ?thesis using a Touch_mutation [of c db i r db'] by simp
  qed
  show ?thesis
    using forward executed refused changed by blast
qed

theorem version_incremented_under_check_witness:
  "fst (mutate (testClient t_00_00_10) (setupDynamoDB [newTestShipmentItem ''A-101'' t_00_00_00])
         (TouchOp ''A-101''))
     = Inr \<lparr>Result.ID = ''A-101'', Result.Status = StatusUnderConstruction,
             Result.LastUpdatedTimestamp = ''2023-12-01T00:00:10Z'', Result.Version = 2\<rparr> \<and>
   calls (snd (mutate (testClient t_00_00_10)
        (setupDynamoDB [newTestShipmentItem ''A-101'' t_00_00_00]) (TouchOp ''A-101'')))
     = [GetItemCall ''A-101'',
        UpdateItemCall ''A-101''
          (Touch_expr (Shipment_Touch (newTestShipmentItem ''A-101'' t_00_00_00) t_00_00_10))] \<and>
   map (\<lambda>s. SystemInfo.Version (SystemInfo s))
     (items (snd (mutate (testClient t_00_00_10)
        (setupDynamoDB [newTestShipmentItem ''A-101'' t_00_00_00]) (TouchOp ''A-101'')))) = [2] \<and>
   fst (updateDynamoDBItem (testClient t_00_00_10)
          (snd (mutate (testClient t_00_00_10)
             (setupDynamoDB [newTestShipmentItem ''A-101'' t_00_00_00]) (TouchOp ''A-101'')))
          ''A-101''
          (Touch_expr (Shipment_Touch (newTestShipmentItem ''A-101'' t_00_00_00) t_00_00_10)))
     = Inl ConditionalCheckFailedError \<and>
   fst (mutate (testClient t_00_00_10)
          (setupDynamoDB [withVersion 9223372036854775807 (newTestShipmentItem ''A-101'' t_00_00_00)])
          (TouchOp ''A-101''))
     = Inl UnmarshalingAttributeError \<and>
   map (\<lambda>s. SystemInfo.Version (SystemInfo s))
     (items (snd (mutate (testClient t_00_00_10)
        (setupDynamoDB [withVersion 9223372036854775807 (newTestShipmentItem ''A-101'' t_00_00_00)])
        (TouchOp ''A-101'')))) = [9223372036854775808]"
  using version_incremented_under_check
    [where c = "testClient t_00_00_10"
       and db = "setupDynamoDB [newTestShipmentItem ''A-101'' t_00_00_00]"
       and m = "TouchOp ''A-101''"
       and s = "newTestShipmentItem ''A-101'' t_00_00_00"
       and r = "\<lparr>Result.ID = ''A-101'', Result.Status = StatusUnderConstruction,
          Result.LastUpdatedTimestamp = ''2023-12-01T00:00:10Z'', Result.Version = 2\<rparr>"
       and db' = "snd (mutate (testClient t_00_00_10)
           (setupDynamoDB [newTestShipmentItem ''A-101'' t_00_00_00]) (TouchOp ''A-101''))"
       and dbw = "snd (mutate (testClient t_00_00_10)
           (setupDynamoDB [newTestShipmentItem ''A-101'' t_00_00_00]) (TouchOp ''A-101''))"
       and k = "''A-101''"]
    version_incremented_under_check
    [where c = "testClient t_00_00_10"
       and db = "setupDynamoDB [newTestShipmentItem ''A-101'' t_00_00_00]"
       and m = "TouchOp ''A-101''"
       and s = "newTestShipmentItem ''A-101'' t_00_00_00"
       and dbw = "setupDynamoDB [newTestShipmentItem ''A-101'' t_00_00_00]"
       and k = "''A-101''"
       and item = "projr (fst (updateDynamoDBItem (testClient t_00_00_10)
          (setupDynamoDB [newTestShipmentItem ''A-101'' t_00_00_00]) ''A-101''
          (Touch_expr (Shipment_Touch (newTestShipmentItem ''A-101'' t_00_00_00) t_00_00_10))))"
       and dbw' = "snd (updateDynamoDBItem (testClient t_00_00_10)
          (setupDynamoDB [newTestShipmentItem ''A-101'' t_00_00_00]) ''A-101''
          (Touch_expr (Shipment_Touch (newTestShipmentItem ''A-101'' t_00_00_00) t_00_00_10)))"]
    version_incremented_under_check
    [where c = "testClient t_00_00_10"
       and db = "setupDynamoDB [withVersion 9223372036854775807
                                  (newTestShipmentItem ''A-101'' t_00_00_00)]"
       and m = "TouchOp ''A-101''"
       and s = "withVersion 9223372036854775807 (newTestShipmentItem ''A-101'' t_00_00_00)"]
  by (simp add: Touch_def Touch_expr_def Shipment_Touch_def stamp_def op_defs test_defs
      withVersion_def)


section \<open>Properties of the newer client\<close>

lemmas message_defs = NewMessage_def seconds_def isVisible_def markAsProcessing_def
  markAsMovedToDLQ_def

lemmas table_defs = logRequest_def findMessage_def getItem_def putItemIfNotExists_def
  deleteItem_def updateItemIfVersion_def queueIndex_def queryIndex_def

lemmas message_test_defs = testInstant_def newTestMessageItemAsReady_def
  newTestMessageItemAsPeeked_def newTestMessageItemAsDLQ_def setupMessageTable_def
  testFIFOClient_def testMessageInput_def emptyTable_def



lemma findMessage_append:
  "findMessage ms k = None \<Longrightarrow> Message.ID m = k \<Longrightarrow> findMessage (ms @ [m]) k = Some m"
  by (induction ms) (auto simp: findMessage_def split: if_splits)

subsection \<open>SendMessage\<close>

text \<open>
  Claim C3. \<^verbatim>\<open>SendMessage\<close> writes with the condition \<^verbatim>\<open>attribute_not_exists(ID)\<close>. When the
  ID of the input is present in the table, the call returns \<^verbatim>\<open>IDDuplicatedError\<close>, the
  messages of the table are as they were, and the one request issued is the conditional
  write: no delete and no unconditional write. When the ID is not present the message is
  stored, and a second \<^verbatim>\<open>SendMessage\<close> with the same ID, whatever its payload, its delay and
  the clock, returns \<^verbatim>\<open>IDDuplicatedError\<close> and leaves the stored record of the first call as
  it is.
\<close>

theorem SendMessage_duplicate:
  "(SendMessageInput.ID input \<noteq> [] \<and>
    findMessage (messages tbl) (SendMessageInput.ID input) = Some existing \<longrightarrow>
      fst (SendMessage c tbl input) = Inl IDDuplicatedError \<and>
      messages (snd (SendMessage c tbl input)) = messages tbl \<and>
      findMessage (messages (snd (SendMessage c tbl input))) (SendMessageInput.ID input)
        = Some existing \<and>
      requests (snd (SendMessage c tbl input)) =
        requests tbl @ [PutItemIfNotExists (SendMessageInput.ID input)]) \<and>
   (SendMessageInput.ID input \<noteq> [] \<and>
    findMessage (messages tbl) (SendMessageInput.ID input) = None \<and>
    SendMessageInput.ID again = SendMessageInput.ID input \<longrightarrow>
      (\<exists>m tbl'. SendMessage c tbl input = (Inr m, tbl') \<and>
         m = NewMessage (SendMessageInput.ID input) (SendMessageInput.Data input) (Clock c)
               (DelaySeconds input) \<and>
         messages tbl' = messages tbl @ [m] \<and>
         findMessage (messages tbl') (SendMessageInput.ID input) = Some m \<and>
         requests tbl' = requests tbl @ [PutItemIfNotExists (SendMessageInput.ID input)] \<and>
         fst (SendMessage c2 tbl' again) = Inl IDDuplicatedError \<and>
         messages (snd (SendMessage c2 tbl' again)) = messages tbl' \<and>
         findMessage (messages (snd (SendMessage c2 tbl' again))) (SendMessageInput.ID input)
           = Some m))"
proof -
  have dup: "fst (SendMessage c0 t0 i0) = Inl IDDuplicatedError \<and>
      messages (snd (SendMessage c0 t0 i0)) = messages t0 \<and>
      requests (snd (SendMessage c0 t0 i0)) = requests t0 @ [PutItemIfNotExists (SendMessageInput.ID i0)]"
    if "SendMessageInput.ID i0 \<noteq> []" "findMessage (messages t0) (SendMessageInput.ID i0) = Some e0"
    for c0 :: Client and t0 :: "'a MessageTable" and i0 e0
    using that
    by (simp add: SendMessage_def putItemIfNotExists_def logRequest_def NewMessage_def Let_def)
  have first: "fst (SendMessage c tbl input) = Inl IDDuplicatedError \<and>
      messages (snd (SendMessage c tbl input)) = messages tbl \<and>
      findMessage (messages (snd (SendMessage c tbl input))) (SendMessageInput.ID input)
        = Some existing \<and>
      requests (snd (SendMessage c tbl input)) =
        requests tbl @ [PutItemIfNotExists (SendMessageInput.ID input)]"
    if h: "SendMessageInput.ID input \<noteq> [] \<and>
      findMessage (messages tbl) (SendMessageInput.ID input) = Some existing"
    using dup [of input tbl existing c] h by simp
  have second: "\<exists>m tbl'. SendMessage c tbl input = (Inr m, tbl') \<and>
         m = NewMessage (SendMessageInput.ID input) (SendMessageInput.Data input) (Clock c)
               (DelaySeconds input) \<and>
         messages tbl' = messages tbl @ [m] \<and>
         findMessage (messages tbl') (SendMessageInput.ID input) = Some m \<and>
         requests tbl' = requests tbl @ [PutItemIfNotExists (SendMessageInput.ID input)] \<and>
         fst (SendMessage c2 tbl' again) = Inl IDDuplicatedError \<and>
         messages (snd (SendMessage c2 tbl' again)) = messages tbl' \<and>
         findMessage (messages (snd (SendMessage c2 tbl' again))) (SendMessageInput.ID input)
           = Some m"
    if h: "SendMessageInput.ID input \<noteq> [] \<and>
      findMessage (messages tbl) (SendMessageInput.ID input) = None \<and>
      SendMessageInput.ID again = SendMessageInput.ID input"
  proof -
    define m where "m = NewMessage (SendMessageInput.ID input) (SendMessageInput.Data input)
        (Clock c) (DelaySeconds input)"
    define tbl' where "tbl' = snd (SendMessage c tbl input)"
    have idm: "Message.ID m = SendMessageInput.ID input" by (simp add: m_def NewMessage_def)
    have run: "SendMessage c tbl input = (Inr m, tbl')"
      and ms: "messages tbl' = messages tbl @ [m]"
      and rq: "requests tbl' = requests tbl @ [PutItemIfNotExists (SendMessageInput.ID input)]"
      using h idm unfolding tbl'_def
      by (simp_all add: SendMessage_def putItemIfNotExists_def logRequest_def Let_def
          m_def [symmetric])
    have look: "findMessage (messages tbl') (SendMessageInput.ID input) = Some m"
      using h idm ms by (simp add: findMessage_append)
    have "SendMessageInput.ID again \<noteq> []"
      "findMessage (messages tbl') (SendMessageInput.ID again) = Some m"
      using h look by simp_all
    from dup [OF this, of c2] look run ms rq show ?thesis by (simp add: m_def)
  qed
  show ?thesis using first second by blast
qed

theorem SendMessage_duplicate_witness:
  "fst (SendMessage (testFIFOClient (testInstant 0 0 10))
          (setupMessageTable [newTestMessageItemAsReady ''A-101'' (testInstant 0 0 0)])
          (testMessageInput ''A-101''))
     = Inl IDDuplicatedError \<and>
   messages (snd (SendMessage (testFIFOClient (testInstant 0 0 10))
          (setupMessageTable [newTestMessageItemAsReady ''A-101'' (testInstant 0 0 0)])
          (testMessageInput ''A-101'')))
     = [newTestMessageItemAsReady ''A-101'' (testInstant 0 0 0)] \<and>
   fst (SendMessage (testFIFOClient (testInstant 0 0 10))
          (snd (SendMessage (testFIFOClient (testInstant 0 0 0)) (setupMessageTable [])
                  (testMessageInput ''A-101'')))
          (testMessageInput ''A-101''))
     = Inl IDDuplicatedError \<and>
   messages (snd (SendMessage (testFIFOClient (testInstant 0 0 10))
          (snd (SendMessage (testFIFOClient (testInstant 0 0 0)) (setupMessageTable [])
                  (testMessageInput ''A-101'')))
          (testMessageInput ''A-101'')))
     = [newTestMessageItemAsReady ''A-101'' (testInstant 0 0 0)]"
  using SendMessage_duplicate
    [where c = "testFIFOClient (testInstant 0 0 10)"
       and tbl = "setupMessageTable [newTestMessageItemAsReady ''A-101'' (testInstant 0 0 0)]"
       and input = "testMessageInput ''A-101''"
       and existing = "newTestMessageItemAsReady ''A-101'' (testInstant 0 0 0)"]
    SendMessage_duplicate
    [where c = "testFIFOClient (testInstant 0 0 0)"
       and tbl = "setupMessageTable ([] :: string Message list)"
       and input = "testMessageInput ''A-101''"
       and again = "testMessageInput ''A-101''"
       and ?c2.0 = "testFIFOClient (testInstant 0 0 10)"]
  by (simp add: SendMessage_def message_defs table_defs message_test_defs Let_def)

subsection \<open>MoveMessageToDLQ\<close>




subsection \<open>FIFO order\<close>

lemma messages_logRequest [simp]: "messages (logRequest r tbl) = messages tbl"
  by (simp add: logRequest_def)














end
